theory Spec2Isabelle
  imports Complex_Main "HOL-Library.AList" "HOL-Library.Multiset"
begin

section \<open>The schema (@shared/schema)\<close>

text \<open>
  The four status enums of the tables. The constructors carry the table's initial, since
  \<open>completed\<close>, \<open>pending\<close>, \<open>in_progress\<close> and \<open>cancelled\<close> occur in several enums.
\<close>

datatype vehicle_status = V_available | V_maintenance | V_in_use | V_out_of_service

datatype maintenance_type = Scheduled | Unscheduled | Repair

datatype maintenance_status = M_pending | M_in_progress | M_completed

datatype trip_status = T_planned | T_in_progress | T_completed | T_cancelled

datatype booking_status = B_pending | B_approved | B_declined | B_cancelled | B_completed

text \<open>
  Rows as selected from the tables (\<open>$inferSelect\<close>). \<open>serial\<close> and \<open>integer\<close> columns are
  \<open>int\<close>; a \<open>timestamp\<close> is its time value in milliseconds and a \<open>date\<close> its day number, both
  \<open>int\<close>, which is all the code compares; a nullable column is an \<open>option\<close>. The column \<open>make\<close> is
  the field \<open>vehicle_make\<close> (a record has a constant \<open>make\<close> of its own).
\<close>

record Vehicle =
  id :: int
  vehicle_make :: string
  model :: string
  year :: int
  registrationNumber :: string
  vin :: "string option"
  color :: "string option"
  status :: vehicle_status
  mileage :: int
  fuelType :: "string option"
  assignedToId :: "int option"
  purchaseDate :: "int option"
  "notes" :: "string option"

record Maintenance =
  id :: int
  vehicleId :: int
  type :: maintenance_type
  description :: string
  date :: int
  cost :: "real option"
  odometer :: "int option"
  status :: maintenance_status
  "notes" :: "string option"
  completedAt :: "int option"

record Trip =
  id :: int
  vehicleId :: int
  driverId :: int
  startTime :: int
  endTime :: "int option"
  startOdometer :: int
  endOdometer :: "int option"
  fuelConsumed :: "real option"
  purpose :: "string option"
  status :: trip_status
  "notes" :: "string option"

record Booking =
  id :: int
  vehicleId :: int
  userId :: int
  startTime :: int
  endTime :: int
  purpose :: "string option"
  status :: booking_status
  createdAt :: int

text \<open>
  The insert types (\<open>z.infer\<close> of the insert schemas): \<open>id\<close> is omitted (and \<open>createdAt\<close>
  for a booking), a column with a default or a nullable column is optional. An absent and
  a \<open>null\<close> value of a nullable column both store \<open>NULL\<close> and are both falsy, so both are
  \<open>None\<close> here. A date is a string in these types and in the partial updates; the field
  is the time value the string stands for.
\<close>

record InsertMaintenance =
  vehicleId :: int
  type :: maintenance_type
  description :: string
  date :: int
  cost :: "real option"
  odometer :: "int option"
  status :: "maintenance_status option"
  "notes" :: "string option"
  completedAt :: "int option"

record InsertTrip =
  vehicleId :: int
  driverId :: int
  startTime :: int
  endTime :: "int option"
  startOdometer :: int
  endOdometer :: "int option"
  fuelConsumed :: "real option"
  purpose :: "string option"
  status :: "trip_status option"
  "notes" :: "string option"

record InsertBooking =
  vehicleId :: int
  userId :: int
  startTime :: int
  endTime :: int
  purpose :: "string option"
  status :: "booking_status option"

text \<open>
  The partial updates, as the routes build them (\<open>insertXSchema.partial().parse\<close>): every
  key is optional. \<open>None\<close> is an absent key; for a nullable column \<open>Some None\<close> is an
  explicit \<open>null\<close>.
\<close>

record PartialMaintenance =
  vehicleId :: "int option"
  type :: "maintenance_type option"
  description :: "string option"
  date :: "int option"
  cost :: "real option option"
  odometer :: "int option option"
  status :: "maintenance_status option"
  "notes" :: "string option option"
  completedAt :: "int option option"

record PartialTrip =
  vehicleId :: "int option"
  driverId :: "int option"
  startTime :: "int option"
  endTime :: "int option option"
  startOdometer :: "int option"
  endOdometer :: "int option option"
  fuelConsumed :: "real option option"
  purpose :: "string option option"
  status :: "trip_status option"
  "notes" :: "string option option"

record PartialBooking =
  vehicleId :: "int option"
  userId :: "int option"
  startTime :: "int option"
  endTime :: "int option"
  purpose :: "string option option"
  status :: "booking_status option"

section \<open>The store behind DatabaseStorage\<close>

text \<open>
  The tables are lists of rows; the \<open>serial\<close> columns draw from one sequence per table.
\<close>

record Database =
  vehicles :: "Vehicle list"
  maintenance :: "Maintenance list"
  trips :: "Trip list"
  bookings :: "Booking list"
  maintenance_id_seq :: int
  trips_id_seq :: int
  bookings_id_seq :: int

text \<open>
  What an operation throws: an \<open>Error\<close> with its message, or the exception of the driver
  when the store refuses a statement (lost connection, violated constraint). Which
  statements the store refuses is a parameter of every operation: \<open>flt k\<close> says that the
  \<open>k\<close>-th statement of the operation is refused.
\<close>

datatype error = Error string | StoreError nat

type_synonym faults = "nat \<Rightarrow> bool"

definition no_faults :: faults where
  "no_faults = (\<lambda>k. False)"

definition bind :: "error + 'a \<Rightarrow> ('a \<Rightarrow> error + 'b) \<Rightarrow> error + 'b" where
  "bind m f = (case m of Inl e \<Rightarrow> Inl e | Inr x \<Rightarrow> f x)"

text \<open>\<open>select().from(t).where(P)\<close>\<close>

definition select_where :: "faults \<Rightarrow> nat \<Rightarrow> ('r \<Rightarrow> bool) \<Rightarrow> 'r list \<Rightarrow> error + 'r list" where
  "select_where flt k P rows = (if flt k then Inl (StoreError k) else Inr (filter P rows))"

text \<open>\<open>update(t).set(f).where(P).returning()\<close>: the rows returned and the new table.\<close>

definition update_where ::
  "faults \<Rightarrow> nat \<Rightarrow> ('r \<Rightarrow> 'r) \<Rightarrow> ('r \<Rightarrow> bool) \<Rightarrow> 'r list \<Rightarrow> error + ('r list \<times> 'r list)" where
  "update_where flt k f P rows =
     (if flt k then Inl (StoreError k)
      else Inr (map f (filter P rows), map (\<lambda>r. if P r then f r else r) rows))"

text \<open>\<open>delete(t).where(P).returning()\<close>\<close>

definition delete_where ::
  "faults \<Rightarrow> nat \<Rightarrow> ('r \<Rightarrow> bool) \<Rightarrow> 'r list \<Rightarrow> error + ('r list \<times> 'r list)" where
  "delete_where flt k P rows =
     (if flt k then Inl (StoreError k)
      else Inr (filter P rows, filter (\<lambda>r. \<not> P r) rows))"

text \<open>
  \<open>db.transaction(body)\<close>: the body runs on the transaction's view of the store; when it
  throws, or the commit (statement \<open>k\<close>) is refused, the store is as before.
\<close>

definition transaction ::
  "faults \<Rightarrow> nat \<Rightarrow> (Database \<Rightarrow> error + ('a \<times> Database)) \<Rightarrow> Database \<Rightarrow> (error + 'a) \<times> Database" where
  "transaction flt k body db =
     (case body db of
        Inl e \<Rightarrow> (Inl e, db)
      | Inr (r, tx) \<Rightarrow> if flt k then (Inl (StoreError k), db) else (Inr r, tx))"

text \<open>\<open>result[0]\<close> of a row list.\<close>

fun first :: "'a list \<Rightarrow> 'a option" where
  "first [] = None"
| "first (x # xs) = Some x"

text \<open>\<open>a || b\<close> on a number that may be absent or \<open>null\<close>: \<open>0\<close> is falsy as well.\<close>

fun or_number :: "int option option \<Rightarrow> int \<Rightarrow> int" where
  "or_number (Some (Some x)) d = (if x = 0 then d else x)"
| "or_number _ d = d"

text \<open>Truthiness of a timestamp that may be absent or \<open>null\<close>: a \<open>Date\<close> is always truthy.\<close>

fun truthy :: "'a option option \<Rightarrow> bool" where
  "truthy (Some (Some x)) = True"
| "truthy _ = False"

text \<open>A key of a partial update overwrites the column when it is present.\<close>

fun or_keep :: "'a option \<Rightarrow> 'a \<Rightarrow> 'a" where
  "or_keep None old = old"
| "or_keep (Some v) old = v"

definition set_maintenance :: "PartialMaintenance \<Rightarrow> Maintenance \<Rightarrow> Maintenance" where
  "set_maintenance p m = m\<lparr>
     Maintenance.vehicleId := or_keep (PartialMaintenance.vehicleId p) (Maintenance.vehicleId m),
     Maintenance.type := or_keep (PartialMaintenance.type p) (Maintenance.type m),
     Maintenance.description := or_keep (PartialMaintenance.description p) (Maintenance.description m),
     Maintenance.date := or_keep (PartialMaintenance.date p) (Maintenance.date m),
     Maintenance.cost := or_keep (PartialMaintenance.cost p) (Maintenance.cost m),
     Maintenance.odometer := or_keep (PartialMaintenance.odometer p) (Maintenance.odometer m),
     Maintenance.status := or_keep (PartialMaintenance.status p) (Maintenance.status m),
     Maintenance.notes := or_keep (PartialMaintenance.notes p) (Maintenance.notes m),
     Maintenance.completedAt := or_keep (PartialMaintenance.completedAt p) (Maintenance.completedAt m)\<rparr>"

definition set_trip :: "PartialTrip \<Rightarrow> Trip \<Rightarrow> Trip" where
  "set_trip p t = t\<lparr>
     Trip.vehicleId := or_keep (PartialTrip.vehicleId p) (Trip.vehicleId t),
     Trip.driverId := or_keep (PartialTrip.driverId p) (Trip.driverId t),
     Trip.startTime := or_keep (PartialTrip.startTime p) (Trip.startTime t),
     Trip.endTime := or_keep (PartialTrip.endTime p) (Trip.endTime t),
     Trip.startOdometer := or_keep (PartialTrip.startOdometer p) (Trip.startOdometer t),
     Trip.endOdometer := or_keep (PartialTrip.endOdometer p) (Trip.endOdometer t),
     Trip.fuelConsumed := or_keep (PartialTrip.fuelConsumed p) (Trip.fuelConsumed t),
     Trip.purpose := or_keep (PartialTrip.purpose p) (Trip.purpose t),
     Trip.status := or_keep (PartialTrip.status p) (Trip.status t),
     Trip.notes := or_keep (PartialTrip.notes p) (Trip.notes t)\<rparr>"

definition set_booking :: "PartialBooking \<Rightarrow> Booking \<Rightarrow> Booking" where
  "set_booking p b = b\<lparr>
     Booking.vehicleId := or_keep (PartialBooking.vehicleId p) (Booking.vehicleId b),
     Booking.userId := or_keep (PartialBooking.userId p) (Booking.userId b),
     Booking.startTime := or_keep (PartialBooking.startTime p) (Booking.startTime b),
     Booking.endTime := or_keep (PartialBooking.endTime p) (Booking.endTime b),
     Booking.purpose := or_keep (PartialBooking.purpose p) (Booking.purpose b),
     Booking.status := or_keep (PartialBooking.status p) (Booking.status b)\<rparr>"

text \<open>
  \<open>insert(t).values(v).returning()\<close> of one row: the row gets the next value of the
  sequence and the column defaults of the schema; the statement returns that row.
\<close>

definition insert_maintenance ::
  "faults \<Rightarrow> nat \<Rightarrow> InsertMaintenance \<Rightarrow> Database \<Rightarrow> error + (Maintenance \<times> Database)" where
  "insert_maintenance flt k v db =
     (if flt k then Inl (StoreError k)
      else let row = \<lparr>Maintenance.id = maintenance_id_seq db,
                      Maintenance.vehicleId = InsertMaintenance.vehicleId v,
                      Maintenance.type = InsertMaintenance.type v,
                      Maintenance.description = InsertMaintenance.description v,
                      Maintenance.date = InsertMaintenance.date v,
                      Maintenance.cost = InsertMaintenance.cost v,
                      Maintenance.odometer = InsertMaintenance.odometer v,
                      Maintenance.status = (case InsertMaintenance.status v of None \<Rightarrow> M_pending | Some s \<Rightarrow> s),
                      Maintenance.notes = InsertMaintenance.notes v,
                      Maintenance.completedAt = InsertMaintenance.completedAt v\<rparr>
           in Inr (row, db\<lparr>maintenance := maintenance db @ [row],
                           maintenance_id_seq := maintenance_id_seq db + 1\<rparr>))"

definition insert_trips ::
  "faults \<Rightarrow> nat \<Rightarrow> InsertTrip \<Rightarrow> Database \<Rightarrow> error + (Trip \<times> Database)" where
  "insert_trips flt k v db =
     (if flt k then Inl (StoreError k)
      else let row = \<lparr>Trip.id = trips_id_seq db,
                      Trip.vehicleId = InsertTrip.vehicleId v,
                      Trip.driverId = InsertTrip.driverId v,
                      Trip.startTime = InsertTrip.startTime v,
                      Trip.endTime = InsertTrip.endTime v,
                      Trip.startOdometer = InsertTrip.startOdometer v,
                      Trip.endOdometer = InsertTrip.endOdometer v,
                      Trip.fuelConsumed = InsertTrip.fuelConsumed v,
                      Trip.purpose = InsertTrip.purpose v,
                      Trip.status = (case InsertTrip.status v of None \<Rightarrow> T_planned | Some s \<Rightarrow> s),
                      Trip.notes = InsertTrip.notes v\<rparr>
           in Inr (row, db\<lparr>trips := trips db @ [row], trips_id_seq := trips_id_seq db + 1\<rparr>))"

text \<open>\<open>createdAt\<close> defaults to the store's clock, \<open>now\<close>.\<close>

definition insert_bookings ::
  "faults \<Rightarrow> nat \<Rightarrow> int \<Rightarrow> InsertBooking \<Rightarrow> Database \<Rightarrow> error + (Booking \<times> Database)" where
  "insert_bookings flt k now v db =
     (if flt k then Inl (StoreError k)
      else let row = \<lparr>Booking.id = bookings_id_seq db,
                      Booking.vehicleId = InsertBooking.vehicleId v,
                      Booking.userId = InsertBooking.userId v,
                      Booking.startTime = InsertBooking.startTime v,
                      Booking.endTime = InsertBooking.endTime v,
                      Booking.purpose = InsertBooking.purpose v,
                      Booking.status = (case InsertBooking.status v of None \<Rightarrow> B_pending | Some s \<Rightarrow> s),
                      Booking.createdAt = now\<rparr>
           in Inr (row, db\<lparr>bookings := bookings db @ [row],
                           bookings_id_seq := bookings_id_seq db + 1\<rparr>))"

section \<open>DatabaseStorage (server/storage.ts)\<close>

text \<open>
  Every method takes the store and returns what it resolves to (\<open>Inr\<close>) or throws (\<open>Inl\<close>),
  with the store afterwards.

  Every date leaves the insert schemas as a string (\<open>dateSchema\<close>); the records hold its
  time value. A \<open>timestamp\<close> column maps its parameter with \<open>toISOString\<close>, which a string
  does not have, so a method has to turn the string into a \<open>Date\<close> first. \<open>createTrip\<close>,
  \<open>createBooking\<close> and \<open>updateBooking\<close> convert both of their timestamps, \<open>updateMaintenance\<close>
  converts \<open>completedAt\<close>, \<open>updateTrip\<close> converts \<open>endTime\<close> only, and \<open>createMaintenance\<close>
  converts nothing. A statement that is given a timestamp still a string throws a
  \<open>TypeError\<close> while it is built: nothing is sent to the store. An absent or \<open>null\<close> value
  is not mapped.
\<close>

definition unconverted_timestamp :: "'a option \<Rightarrow> error + unit" where
  "unconverted_timestamp value =
     (case value of
        None \<Rightarrow> Inr ()
      | Some s \<Rightarrow> Inl (Error ''value.toISOString is not a function''))"

definition getVehicle :: "Database \<Rightarrow> int \<Rightarrow> Vehicle option" where
  "getVehicle db i = first (filter (\<lambda>v. Vehicle.id v = i) (vehicles db))"

definition getMaintenance :: "Database \<Rightarrow> int \<Rightarrow> Maintenance option" where
  "getMaintenance db i = first (filter (\<lambda>m. Maintenance.id m = i) (maintenance db))"

definition getTrip :: "Database \<Rightarrow> int \<Rightarrow> Trip option" where
  "getTrip db i = first (filter (\<lambda>t. Trip.id t = i) (trips db))"

definition getBooking :: "Database \<Rightarrow> int \<Rightarrow> Booking option" where
  "getBooking db i = first (filter (\<lambda>b. Booking.id b = i) (bookings db))"

definition createMaintenance_tx ::
  "faults \<Rightarrow> InsertMaintenance \<Rightarrow> Database \<Rightarrow> error + (Maintenance \<times> Database)" where
  "createMaintenance_tx flt maintenanceData tx =
     bind (unconverted_timestamp (InsertMaintenance.completedAt maintenanceData)) (\<lambda>u.
     bind (insert_maintenance flt 0 maintenanceData tx) (\<lambda>(newMaintenance, tx1).
       if InsertMaintenance.status maintenanceData \<noteq> Some M_completed then
         bind (select_where flt 1 (\<lambda>v. Vehicle.id v = InsertMaintenance.vehicleId maintenanceData)
                 (vehicles tx1)) (\<lambda>vehicle.
           case vehicle of
             v # rest \<Rightarrow>
               if Vehicle.status v = V_available then
                 bind (update_where flt 2 (\<lambda>r. r\<lparr>Vehicle.status := V_maintenance\<rparr>)
                         (\<lambda>r. Vehicle.id r = InsertMaintenance.vehicleId maintenanceData)
                         (vehicles tx1)) (\<lambda>(returned, vs).
                   Inr (newMaintenance, tx1\<lparr>vehicles := vs\<rparr>))
               else Inr (newMaintenance, tx1)
           | [] \<Rightarrow> Inr (newMaintenance, tx1))
       else Inr (newMaintenance, tx1)))"

definition DatabaseStorage_createMaintenance ::
  "faults \<Rightarrow> InsertMaintenance \<Rightarrow> Database \<Rightarrow> (error + Maintenance) \<times> Database" where
  "DatabaseStorage_createMaintenance flt maintenanceData db =
     transaction flt 3 (createMaintenance_tx flt maintenanceData) db"

definition createTrip_tx ::
  "faults \<Rightarrow> InsertTrip \<Rightarrow> Database \<Rightarrow> error + (Trip \<times> Database)" where
  "createTrip_tx flt processedData tx =
     bind (insert_trips flt 0 processedData tx) (\<lambda>(newTrip, tx1).
       if InsertTrip.status processedData = Some T_in_progress then
         bind (select_where flt 1 (\<lambda>v. Vehicle.id v = InsertTrip.vehicleId processedData)
                 (vehicles tx1)) (\<lambda>vehicle.
           case vehicle of
             v # rest \<Rightarrow>
               if Vehicle.status v = V_available then
                 bind (update_where flt 2 (\<lambda>r. r\<lparr>Vehicle.status := V_in_use\<rparr>)
                         (\<lambda>r. Vehicle.id r = InsertTrip.vehicleId processedData)
                         (vehicles tx1)) (\<lambda>(returned, vs).
                   Inr (newTrip, tx1\<lparr>vehicles := vs\<rparr>))
               else Inr (newTrip, tx1)
           | [] \<Rightarrow> Inr (newTrip, tx1))
       else Inr (newTrip, tx1))"

definition DatabaseStorage_createTrip ::
  "faults \<Rightarrow> InsertTrip \<Rightarrow> Database \<Rightarrow> (error + Trip) \<times> Database" where
  "DatabaseStorage_createTrip flt tripData db =
     transaction flt 3 (createTrip_tx flt tripData) db"

definition updateMaintenance_tx ::
  "faults \<Rightarrow> int \<Rightarrow> PartialMaintenance \<Rightarrow> Database \<Rightarrow> error + (Maintenance option \<times> Database)" where
  "updateMaintenance_tx flt i maintenanceData tx =
     bind (select_where flt 0 (\<lambda>m. Maintenance.id m = i) (maintenance tx)) (\<lambda>existingMaintenance.
     bind (update_where flt 1 (set_maintenance maintenanceData) (\<lambda>m. Maintenance.id m = i)
             (maintenance tx)) (\<lambda>(updatedMaintenance, ms).
       let tx1 = tx\<lparr>maintenance := ms\<rparr> in
       if PartialMaintenance.status maintenanceData = Some M_completed then
         bind (select_where flt 2 (\<lambda>m. Maintenance.id m = i) (maintenance tx1)) (\<lambda>maintenanceRecord.
           case maintenanceRecord of
             m # rest \<Rightarrow>
               bind (select_where flt 3 (\<lambda>v. Vehicle.id v = Maintenance.vehicleId m)
                       (vehicles tx1)) (\<lambda>vehicle.
                 case vehicle of
                   v # rest' \<Rightarrow>
                     if Vehicle.status v = V_maintenance then
                       bind (update_where flt 4 (\<lambda>r. r\<lparr>Vehicle.status := V_available\<rparr>)
                               (\<lambda>r. Vehicle.id r = Maintenance.vehicleId m)
                               (vehicles tx1)) (\<lambda>(returned, vs).
                         Inr (first updatedMaintenance, tx1\<lparr>vehicles := vs\<rparr>))
                     else Inr (first updatedMaintenance, tx1)
                 | [] \<Rightarrow> Inr (first updatedMaintenance, tx1))
           | [] \<Rightarrow> Inr (first updatedMaintenance, tx1))
       else Inr (first updatedMaintenance, tx1)))"

definition DatabaseStorage_updateMaintenance ::
  "faults \<Rightarrow> int \<Rightarrow> PartialMaintenance \<Rightarrow> Database \<Rightarrow> (error + Maintenance option) \<times> Database" where
  "DatabaseStorage_updateMaintenance flt i maintenanceData db =
     transaction flt 5 (updateMaintenance_tx flt i maintenanceData) db"

definition listMaintenanceForVehicle :: "faults \<Rightarrow> int \<Rightarrow> Database \<Rightarrow> error + Maintenance list" where
  "listMaintenanceForVehicle flt vid db =
     select_where flt 0 (\<lambda>m. Maintenance.vehicleId m = vid) (maintenance db)"


definition updateTrip_tx ::
  "faults \<Rightarrow> int \<Rightarrow> PartialTrip \<Rightarrow> Database \<Rightarrow> error + (Trip option \<times> Database)" where
  "updateTrip_tx flt i processedData tx =
     bind (unconverted_timestamp (PartialTrip.startTime processedData)) (\<lambda>u.
     bind (update_where flt 0 (set_trip processedData) (\<lambda>t. Trip.id t = i) (trips tx))
       (\<lambda>(updatedTrip, ts).
       let tx1 = tx\<lparr>trips := ts\<rparr> in
       if updatedTrip = [] then Inr (None, tx1)
       else if PartialTrip.status processedData = Some T_completed
               \<and> truthy (PartialTrip.endTime processedData) then
         bind (select_where flt 1 (\<lambda>t. Trip.id t = i) (trips tx1)) (\<lambda>tripRecord.
           case tripRecord of
             t # rest \<Rightarrow>
               bind (select_where flt 2 (\<lambda>v. Vehicle.id v = Trip.vehicleId t) (vehicles tx1))
                 (\<lambda>vehicle.
                 case vehicle of
                   v # rest' \<Rightarrow>
                     if Vehicle.status v = V_in_use then
                       let newMileage = or_number (PartialTrip.endOdometer processedData)
                                          (Vehicle.mileage v) in
                       bind (update_where flt 3
                               (\<lambda>r. r\<lparr>Vehicle.status := V_available, Vehicle.mileage := newMileage\<rparr>)
                               (\<lambda>r. Vehicle.id r = Trip.vehicleId t)
                               (vehicles tx1)) (\<lambda>(returned, vs).
                         Inr (first updatedTrip, tx1\<lparr>vehicles := vs\<rparr>))
                     else Inr (first updatedTrip, tx1)
                 | [] \<Rightarrow> Inr (first updatedTrip, tx1))
           | [] \<Rightarrow> Inr (first updatedTrip, tx1))
       else Inr (first updatedTrip, tx1)))"

definition DatabaseStorage_updateTrip ::
  "faults \<Rightarrow> int \<Rightarrow> PartialTrip \<Rightarrow> Database \<Rightarrow> (error + Trip option) \<times> Database" where
  "DatabaseStorage_updateTrip flt i tripData db =
     transaction flt 4 (updateTrip_tx flt i tripData) db"

definition listTripsForVehicle :: "faults \<Rightarrow> int \<Rightarrow> Database \<Rightarrow> error + Trip list" where
  "listTripsForVehicle flt vid db =
     select_where flt 0 (\<lambda>t. Trip.vehicleId t = vid) (trips db)"

fun status_name :: "vehicle_status \<Rightarrow> string" where
  "status_name V_available = ''available''"
| "status_name V_maintenance = ''maintenance''"
| "status_name V_in_use = ''in_use''"
| "status_name V_out_of_service = ''out_of_service''"

text \<open>
  \<open>createBooking\<close> runs outside any transaction: the check reads the store, then the insert
  writes it. \<open>now\<close> is the store's clock at the insert.
\<close>

definition DatabaseStorage_createBooking ::
  "faults \<Rightarrow> int \<Rightarrow> InsertBooking \<Rightarrow> Database \<Rightarrow> (error + Booking) \<times> Database" where
  "DatabaseStorage_createBooking flt now processedData db =
     (case select_where flt 0 (\<lambda>v. Vehicle.id v = InsertBooking.vehicleId processedData)
             (vehicles db) of
        Inl e \<Rightarrow> (Inl e, db)
      | Inr [] \<Rightarrow> (Inl (Error ''Vehicle not found''), db)
      | Inr (v # rest) \<Rightarrow>
          if Vehicle.status v \<noteq> V_available then
            (Inl (Error (''Vehicle not available (status: '' @ status_name (Vehicle.status v) @ '')'')), db)
          else
            (case insert_bookings flt 1 now processedData db of
               Inl e \<Rightarrow> (Inl e, db)
             | Inr (result, db') \<Rightarrow> (Inr result, db')))"

definition DatabaseStorage_updateBooking ::
  "faults \<Rightarrow> int \<Rightarrow> PartialBooking \<Rightarrow> Database \<Rightarrow> (error + Booking option) \<times> Database" where
  "DatabaseStorage_updateBooking flt i processedData db =
     (case update_where flt 0 (set_booking processedData) (\<lambda>b. Booking.id b = i) (bookings db) of
        Inl e \<Rightarrow> (Inl e, db)
      | Inr (result, bs) \<Rightarrow>
          if result = [] then (Inr None, db\<lparr>bookings := bs\<rparr>)
          else (Inr (first result), db\<lparr>bookings := bs\<rparr>))"

definition listBookingsForVehicle :: "faults \<Rightarrow> int \<Rightarrow> Database \<Rightarrow> error + Booking list" where
  "listBookingsForVehicle flt vid db =
     select_where flt 0 (\<lambda>b. Booking.vehicleId b = vid) (bookings db)"

definition DatabaseStorage_deleteVehicle ::
  "faults \<Rightarrow> int \<Rightarrow> Database \<Rightarrow> (error + bool) \<times> Database" where
  "DatabaseStorage_deleteVehicle flt i db =
     (case delete_where flt 0 (\<lambda>v. Vehicle.id v = i) (vehicles db) of
        Inl e \<Rightarrow> (Inl e, db)
      | Inr (result, vs) \<Rightarrow> (Inr (length result > 0), db\<lparr>vehicles := vs\<rparr>))"

section \<open>The routes (registerRoutes)\<close>

text \<open>
  A route takes the user of the session (\<open>None\<close> when the request is not authenticated),
  the parsed body and the store, and gives the response and the store afterwards. A
  response is a status code with a JSON entity or with a \<open>message\<close>; \<open>Unhandled\<close> is a
  rejection outside every \<open>try\<close>, where the route sends nothing.
\<close>

datatype role = Admin | Moderator

type_synonym req_user = "int \<times> role"

datatype 'a response = Json int 'a | Message int string | Unhandled error

fun code :: "'a response \<Rightarrow> int option" where
  "code (Json c x) = Some c"
| "code (Message c m) = Some c"
| "code (Unhandled e) = None"

text \<open>The statements of the \<open>n\<close> storage calls before this one have been counted already.\<close>

definition shift :: "nat \<Rightarrow> faults \<Rightarrow> faults" where
  "shift n flt = (\<lambda>k. flt (k + n))"

text \<open>\<open>checkRole(roles)\<close>: \<open>None\<close> is \<open>next()\<close>.\<close>

definition checkRole :: "role list \<Rightarrow> req_user option \<Rightarrow> 'a response option" where
  "checkRole roles user =
     (case user of
        None \<Rightarrow> Some (Message 401 ''Unauthorized'')
      | Some (uid, r) \<Rightarrow> if r \<notin> set roles then Some (Message 403 ''Forbidden'') else None)"

text \<open>\<open>String.prototype.includes\<close>\<close>

fun starts_with :: "string \<Rightarrow> string \<Rightarrow> bool" where
  "starts_with s [] = True"
| "starts_with [] (p # ps) = False"
| "starts_with (c # s) (p # ps) = (c = p \<and> starts_with s ps)"

fun string_includes :: "string \<Rightarrow> string \<Rightarrow> bool" where
  "string_includes [] p = (p = [])"
| "string_includes (c # s) p = (starts_with (c # s) p \<or> string_includes s p)"

text \<open>\<open>app.delete("/api/vehicles/:id", adminOnly, ...)\<close>\<close>

definition delete_vehicle_route ::
  "faults \<Rightarrow> req_user option \<Rightarrow> int \<Rightarrow> Database \<Rightarrow> unit response \<times> Database" where
  "delete_vehicle_route flt user i db =
     (case checkRole [Admin] user of
        Some r \<Rightarrow> (r, db)
      | None \<Rightarrow>
         (case listMaintenanceForVehicle flt i db of
            Inl e \<Rightarrow> (Message 500 ''Error deleting vehicle'', db)
          | Inr maintenanceRecords \<Rightarrow>
             if length maintenanceRecords > 0 then
               (Message 400 ''Cannot delete vehicle with maintenance records. Remove maintenance records first.'', db)
             else
              (case listTripsForVehicle (shift 1 flt) i db of
                 Inl e \<Rightarrow> (Message 500 ''Error deleting vehicle'', db)
               | Inr trips' \<Rightarrow>
                  if length trips' > 0 then
                    (Message 400 ''Cannot delete vehicle with trip records. Remove trip records first.'', db)
                  else
                   (case listBookingsForVehicle (shift 2 flt) i db of
                      Inl e \<Rightarrow> (Message 500 ''Error deleting vehicle'', db)
                    | Inr bookings' \<Rightarrow>
                       if length bookings' > 0 then
                         (Message 400 ''Cannot delete vehicle with booking records. Remove booking records first.'', db)
                       else
                        (case DatabaseStorage_deleteVehicle (shift 3 flt) i db of
                           (Inl e, db') \<Rightarrow> (Message 500 ''Error deleting vehicle'', db')
                         | (Inr success, db') \<Rightarrow>
                            if \<not> success then (Message 404 ''Vehicle not found'', db')
                            else (Message 200 ''Vehicle deleted successfully'', db'))))))"

text \<open>\<open>app.put("/api/trips/:id", ...)\<close>: the body has passed \<open>insertTripSchema.partial()\<close>.\<close>

definition put_trip_route ::
  "faults \<Rightarrow> req_user option \<Rightarrow> int \<Rightarrow> PartialTrip \<Rightarrow> Database \<Rightarrow> Trip response \<times> Database" where
  "put_trip_route flt user i tripData db =
     (case user of
        None \<Rightarrow> (Message 401 ''Unauthorized'', db)
      | Some (uid, r) \<Rightarrow>
         (case select_where flt 0 (\<lambda>t. Trip.id t = i) (trips db) of
            Inl e \<Rightarrow> (Unhandled e, db)
          | Inr [] \<Rightarrow> (Message 404 ''Trip not found'', db)
          | Inr (trip # rest) \<Rightarrow>
             if uid \<noteq> Trip.driverId trip \<and> r \<noteq> Admin \<and> r \<noteq> Moderator then
               (Message 403 ''Forbidden'', db)
             else
              (case DatabaseStorage_updateTrip (shift 1 flt) i tripData db of
                 (Inl e, db') \<Rightarrow> (Message 500 ''Internal server error'', db')
               | (Inr None, db') \<Rightarrow> (Message 404 ''Trip not found'', db')
               | (Inr (Some updatedTrip), db') \<Rightarrow> (Json 200 updatedTrip, db'))))"

text \<open>
  \<open>app.post("/api/bookings", ...)\<close>: the body has passed \<open>insertBookingSchema\<close>. The
  message of a driver exception holds neither of the two phrases looked for.
\<close>

definition post_booking_route ::
  "faults \<Rightarrow> int \<Rightarrow> req_user option \<Rightarrow> InsertBooking \<Rightarrow> Database \<Rightarrow> Booking response \<times> Database" where
  "post_booking_route flt now user bookingData db =
     (case user of
        None \<Rightarrow> (Message 401 ''Unauthorized'', db)
      | Some u \<Rightarrow>
         (case DatabaseStorage_createBooking flt now bookingData db of
            (Inr booking, db') \<Rightarrow> (Json 201 booking, db')
          | (Inl (Error errorMessage), db') \<Rightarrow>
             if string_includes errorMessage ''Vehicle not found'' then (Message 404 errorMessage, db')
             else if string_includes errorMessage ''Vehicle not available'' then (Message 422 errorMessage, db')
             else (Message 500 ''Internal server error'', db')
          | (Inl (StoreError k), db') \<Rightarrow> (Message 500 ''Internal server error'', db')))"

section \<open>MemStorage (server/storage.ts)\<close>

text \<open>
  The maps keep their keys in insertion order: association lists, with \<open>Map.set\<close> as
  \<open>AList.update\<close> and \<open>Map.get\<close> as \<open>map_of\<close>. A stored record \<open>{ ...insertX, id }\<close> is the
  \<open>id\<close> with the inserted object: no column default is applied, so its status may be absent.
\<close>

record MemMaintenance =
  id :: int
  inserted :: InsertMaintenance

record MemTrip =
  id :: int
  inserted :: InsertTrip

record MemStorage =
  vehicles :: "(int \<times> Vehicle) list"
  maintenances :: "(int \<times> MemMaintenance) list"
  trips :: "(int \<times> MemTrip) list"
  maintenanceIdCounter :: int
  tripIdCounter :: int

definition MemStorage_createMaintenance ::
  "InsertMaintenance \<Rightarrow> MemStorage \<Rightarrow> MemMaintenance \<times> MemStorage" where
  "MemStorage_createMaintenance insertMaintenance s =
     (let i = maintenanceIdCounter s;
          maintenance' = \<lparr>MemMaintenance.id = i, MemMaintenance.inserted = insertMaintenance\<rparr>;
          s1 = s\<lparr>maintenanceIdCounter := i + 1,
                 maintenances := AList.update i maintenance' (maintenances s)\<rparr>
      in case map_of (MemStorage.vehicles s1) (InsertMaintenance.vehicleId insertMaintenance) of
           Some vehicle \<Rightarrow>
             if Vehicle.status vehicle = V_available then
               (maintenance', s1\<lparr>MemStorage.vehicles :=
                   AList.update (Vehicle.id vehicle) (vehicle\<lparr>Vehicle.status := V_maintenance\<rparr>)
                     (MemStorage.vehicles s1)\<rparr>)
             else (maintenance', s1)
         | None \<Rightarrow> (maintenance', s1))"

definition MemStorage_createTrip :: "InsertTrip \<Rightarrow> MemStorage \<Rightarrow> MemTrip \<times> MemStorage" where
  "MemStorage_createTrip insertTrip s =
     (let i = tripIdCounter s;
          trip = \<lparr>MemTrip.id = i, MemTrip.inserted = insertTrip\<rparr>;
          s1 = s\<lparr>tripIdCounter := i + 1, MemStorage.trips := AList.update i trip (MemStorage.trips s)\<rparr>
      in case map_of (MemStorage.vehicles s1) (InsertTrip.vehicleId insertTrip) of
           Some vehicle \<Rightarrow>
             if Vehicle.status vehicle = V_available then
               (trip, s1\<lparr>MemStorage.vehicles :=
                   AList.update (Vehicle.id vehicle) (vehicle\<lparr>Vehicle.status := V_in_use\<rparr>)
                     (MemStorage.vehicles s1)\<rparr>)
             else (trip, s1)
         | None \<Rightarrow> (trip, s1))"

definition MemStorage_listUpcomingMaintenance :: "MemStorage \<Rightarrow> MemMaintenance list" where
  "MemStorage_listUpcomingMaintenance s =
     sort_key (\<lambda>m. InsertMaintenance.date (MemMaintenance.inserted m))
       (filter (\<lambda>m. InsertMaintenance.status (MemMaintenance.inserted m) \<noteq> Some M_completed)
          (map snd (maintenances s)))"

text \<open>\<open>{ ...trip, ...tripData }\<close> on the inserted object: a present key overwrites.\<close>

definition merge_trip :: "PartialTrip \<Rightarrow> InsertTrip \<Rightarrow> InsertTrip" where
  "merge_trip p t = t\<lparr>
     InsertTrip.vehicleId := or_keep (PartialTrip.vehicleId p) (InsertTrip.vehicleId t),
     InsertTrip.driverId := or_keep (PartialTrip.driverId p) (InsertTrip.driverId t),
     InsertTrip.startTime := or_keep (PartialTrip.startTime p) (InsertTrip.startTime t),
     InsertTrip.endTime := or_keep (PartialTrip.endTime p) (InsertTrip.endTime t),
     InsertTrip.startOdometer := or_keep (PartialTrip.startOdometer p) (InsertTrip.startOdometer t),
     InsertTrip.endOdometer := or_keep (PartialTrip.endOdometer p) (InsertTrip.endOdometer t),
     InsertTrip.fuelConsumed := or_keep (PartialTrip.fuelConsumed p) (InsertTrip.fuelConsumed t),
     InsertTrip.purpose := or_keep (PartialTrip.purpose p) (InsertTrip.purpose t),
     InsertTrip.status := (case PartialTrip.status p of None \<Rightarrow> InsertTrip.status t
                           | Some st \<Rightarrow> Some st),
     InsertTrip.notes := or_keep (PartialTrip.notes p) (InsertTrip.notes t)\<rparr>"

definition MemStorage_updateTrip ::
  "int \<Rightarrow> PartialTrip \<Rightarrow> MemStorage \<Rightarrow> MemTrip option \<times> MemStorage" where
  "MemStorage_updateTrip i tripData s =
     (case map_of (MemStorage.trips s) i of
        None \<Rightarrow> (None, s)
      | Some trip \<Rightarrow>
         (let updatedTrip = trip\<lparr>MemTrip.inserted := merge_trip tripData (MemTrip.inserted trip)\<rparr>;
              s1 = s\<lparr>MemStorage.trips := AList.update i updatedTrip (MemStorage.trips s)\<rparr>
          in if PartialTrip.status tripData = Some T_completed
                \<and> truthy (PartialTrip.endTime tripData) then
               (case map_of (MemStorage.vehicles s1)
                       (InsertTrip.vehicleId (MemTrip.inserted trip)) of
                  Some vehicle \<Rightarrow>
                    if Vehicle.status vehicle = V_in_use then
                      (Some updatedTrip, s1\<lparr>MemStorage.vehicles :=
                         AList.update (Vehicle.id vehicle)
                           (vehicle\<lparr>Vehicle.status := V_available,
                                    Vehicle.mileage :=
                                      or_number (PartialTrip.endOdometer tripData)
                                        (Vehicle.mileage vehicle)\<rparr>)
                           (MemStorage.vehicles s1)\<rparr>)
                    else (Some updatedTrip, s1)
                | None \<Rightarrow> (Some updatedTrip, s1))
             else (Some updatedTrip, s1)))"

section \<open>Example states\<close>

text \<open>
  The scenario of the specification: vehicle 1, a trip of driver 7 that starts at odometer
  1000, a booking of user 5, an oil change.
\<close>

definition example_vehicle :: "int \<Rightarrow> vehicle_status \<Rightarrow> int \<Rightarrow> Vehicle" where
  "example_vehicle i s m =
     \<lparr>Vehicle.id = i, vehicle_make = ''Ford'', model = ''Transit'', year = 2020,
      registrationNumber = ''AB-123'', vin = None, color = None, Vehicle.status = s,
      mileage = m, fuelType = None, assignedToId = None, purchaseDate = None,
      Vehicle.notes = None\<rparr>"

definition example_db :: "vehicle_status \<Rightarrow> int \<Rightarrow> Database" where
  "example_db s m =
     \<lparr>Database.vehicles = [example_vehicle 1 s m], maintenance = [], Database.trips = [],
      bookings = [], maintenance_id_seq = 1, trips_id_seq = 1, bookings_id_seq = 1\<rparr>"

definition example_trip :: "trip_status option \<Rightarrow> InsertTrip" where
  "example_trip st =
     \<lparr>InsertTrip.vehicleId = 1, InsertTrip.driverId = 7, InsertTrip.startTime = 0,
      InsertTrip.endTime = None, InsertTrip.startOdometer = 1000, InsertTrip.endOdometer = None,
      InsertTrip.fuelConsumed = None, InsertTrip.purpose = None, InsertTrip.status = st,
      InsertTrip.notes = None\<rparr>"

definition example_trip_row :: "int \<Rightarrow> trip_status \<Rightarrow> Trip" where
  "example_trip_row so st =
     \<lparr>Trip.id = 1, Trip.vehicleId = 1, Trip.driverId = 7, Trip.startTime = 0,
      Trip.endTime = None, Trip.startOdometer = so, Trip.endOdometer = None,
      Trip.fuelConsumed = None, Trip.purpose = None, Trip.status = st, Trip.notes = None\<rparr>"

definition example_db_trip :: "vehicle_status \<Rightarrow> int \<Rightarrow> int \<Rightarrow> Database" where
  "example_db_trip s m so =
     \<lparr>Database.vehicles = [example_vehicle 1 s m], maintenance = [],
      Database.trips = [example_trip_row so T_in_progress],
      bookings = [], maintenance_id_seq = 1, trips_id_seq = 2, bookings_id_seq = 1\<rparr>"

definition example_completion :: "int \<Rightarrow> PartialTrip" where
  "example_completion x =
     \<lparr>PartialTrip.vehicleId = None, PartialTrip.driverId = None, PartialTrip.startTime = None,
      PartialTrip.endTime = Some (Some 3600000), PartialTrip.startOdometer = None,
      PartialTrip.endOdometer = Some (Some x), PartialTrip.fuelConsumed = Some (Some 10),
      PartialTrip.purpose = None, PartialTrip.status = Some T_completed,
      PartialTrip.notes = None\<rparr>"

definition example_completed_trip_row :: "int \<Rightarrow> int \<Rightarrow> Trip" where
  "example_completed_trip_row so x =
     \<lparr>Trip.id = 1, Trip.vehicleId = 1, Trip.driverId = 7, Trip.startTime = 0,
      Trip.endTime = Some 3600000, Trip.startOdometer = so, Trip.endOdometer = Some x,
      Trip.fuelConsumed = Some 10, Trip.purpose = None, Trip.status = T_completed,
      Trip.notes = None\<rparr>"

definition example_booking :: "int \<Rightarrow> InsertBooking" where
  "example_booking vid =
     \<lparr>InsertBooking.vehicleId = vid, InsertBooking.userId = 5, InsertBooking.startTime = 0,
      InsertBooking.endTime = 3600000, InsertBooking.purpose = None,
      InsertBooking.status = None\<rparr>"

definition example_maintenance :: "maintenance_status option \<Rightarrow> InsertMaintenance" where
  "example_maintenance st =
     \<lparr>InsertMaintenance.vehicleId = 1, InsertMaintenance.type = Scheduled,
      InsertMaintenance.description = ''Oil change'', InsertMaintenance.date = 19723,
      InsertMaintenance.cost = None, InsertMaintenance.odometer = None,
      InsertMaintenance.status = st, InsertMaintenance.notes = None,
      InsertMaintenance.completedAt = None\<rparr>"

definition example_maintenance_row :: "int \<Rightarrow> int \<Rightarrow> maintenance_status \<Rightarrow> Maintenance" where
  "example_maintenance_row i d st =
     \<lparr>Maintenance.id = i, Maintenance.vehicleId = 1, Maintenance.type = Scheduled,
      Maintenance.description = ''Oil change'', Maintenance.date = d,
      Maintenance.cost = None, Maintenance.odometer = None,
      Maintenance.status = st, Maintenance.notes = None,
      Maintenance.completedAt = None\<rparr>"

definition example_maintenance_completion :: PartialMaintenance where
  "example_maintenance_completion =
     \<lparr>PartialMaintenance.vehicleId = None, PartialMaintenance.type = None,
      PartialMaintenance.description = None, PartialMaintenance.date = None,
      PartialMaintenance.cost = Some (Some 45), PartialMaintenance.odometer = None,
      PartialMaintenance.status = Some M_completed, PartialMaintenance.notes = None,
      PartialMaintenance.completedAt = Some (Some 1704103200000)\<rparr>"

definition example_booking_row :: "booking_status \<Rightarrow> Booking" where
  "example_booking_row st =
     \<lparr>Booking.id = 1, Booking.vehicleId = 1, Booking.userId = 5, Booking.startTime = 0,
      Booking.endTime = 3600000, Booking.purpose = None, Booking.status = st,
      Booking.createdAt = 0\<rparr>"

definition example_status_patch :: "booking_status \<Rightarrow> PartialBooking" where
  "example_status_patch st =
     \<lparr>PartialBooking.vehicleId = None, PartialBooking.userId = None,
      PartialBooking.startTime = None, PartialBooking.endTime = None,
      PartialBooking.purpose = None, PartialBooking.status = Some st\<rparr>"

definition example_db_records :: "Maintenance list \<Rightarrow> Booking list \<Rightarrow> Database" where
  "example_db_records ms bs =
     \<lparr>Database.vehicles = [example_vehicle 1 V_available 1000], maintenance = ms,
      Database.trips = [], bookings = bs, maintenance_id_seq = 2, trips_id_seq = 1,
      bookings_id_seq = 2\<rparr>"

definition example_mem :: "vehicle_status \<Rightarrow> int \<Rightarrow> MemStorage" where
  "example_mem s m =
     \<lparr>MemStorage.vehicles = [(1, example_vehicle 1 s m)], maintenances = [],
      MemStorage.trips = [], maintenanceIdCounter = 1, tripIdCounter = 1\<rparr>"

section \<open>Facts about the store\<close>

lemmas store_defs =
  transaction_def bind_def select_where_def update_where_def delete_where_def
  insert_trips_def insert_maintenance_def insert_bookings_def no_faults_def shift_def
  unconverted_timestamp_def Let_def

lemmas example_defs =
  example_vehicle_def example_db_def example_trip_def example_trip_row_def example_db_trip_def
  example_completion_def example_completed_trip_row_def example_booking_def
  example_maintenance_def example_maintenance_row_def example_maintenance_completion_def
  example_booking_row_def example_status_patch_def example_db_records_def example_mem_def

lemma filter_update_where:
  "(\<And>r. P (f r) = P r) \<Longrightarrow>
     filter P (map (\<lambda>r. if P r then f r else r) xs) = map f (filter P xs)"
  by (induction xs) auto

lemma first_Some_iff: "first xs = Some x \<longleftrightarrow> (\<exists>rest. xs = x # rest)"
  by (cases xs) auto

lemma first_None_iff: "first xs = None \<longleftrightarrow> xs = []"
  by (cases xs) auto

lemma getVehicle_Some:
  "getVehicle db i = Some v \<longleftrightarrow>
     (\<exists>rest. filter (\<lambda>r. Vehicle.id r = i) (Database.vehicles db) = v # rest)"
  by (simp add: getVehicle_def first_Some_iff)

lemma getVehicle_None:
  "getVehicle db i = None \<longleftrightarrow> filter (\<lambda>r. Vehicle.id r = i) (Database.vehicles db) = []"
  by (simp add: getVehicle_def first_None_iff)

lemma getTrip_Some:
  "getTrip db i = Some t \<longleftrightarrow>
     (\<exists>rest. filter (\<lambda>r. Trip.id r = i) (Database.trips db) = t # rest)"
  by (simp add: getTrip_def first_Some_iff)

lemma getVehicle_after_update:
  assumes "getVehicle db i = Some v" and "\<And>r. Vehicle.id (f r) = Vehicle.id r"
    and "Database.vehicles db' =
           map (\<lambda>r. if Vehicle.id r = i then f r else r) (Database.vehicles db)"
  shows "getVehicle db' i = Some (f v)"
proof -
  from assms(1) obtain rest where
    "filter (\<lambda>r. Vehicle.id r = i) (Database.vehicles db) = v # rest"
    by (auto simp: getVehicle_Some)
  then show ?thesis
    using filter_update_where [of "\<lambda>r. Vehicle.id r = i" f "Database.vehicles db"] assms(2,3)
    by (simp add: getVehicle_def)
qed

lemma set_trip_id [simp]: "Trip.id (set_trip p t) = Trip.id t"
  by (simp add: set_trip_def)

lemma set_trip_vehicleId [simp]:
  "Trip.vehicleId (set_trip p t) = or_keep (PartialTrip.vehicleId p) (Trip.vehicleId t)"
  by (simp add: set_trip_def)

lemma not_available_message:
  "s \<noteq> V_available \<Longrightarrow>
     \<not> string_includes (''Vehicle not available (status: '' @ status_name s @ '')'')
          ''Vehicle not found''
     \<and> string_includes (''Vehicle not available (status: '' @ status_name s @ '')'')
          ''Vehicle not available''"
  by (cases s) simp_all

text \<open>
  Completing a trip whose vehicle is in use, with an update that carries no start time: the
  row takes the update, the vehicle becomes available and its mileage is the reported
  odometer, unless that is absent or \<open>0\<close>.
\<close>

lemma updateTrip_complete_in_use:
  assumes t: "getTrip db i = Some t"
    and v: "getVehicle db (Trip.vehicleId t) = Some v"
    and "Vehicle.status v = V_in_use"
    and "PartialTrip.status p = Some T_completed"
    and "PartialTrip.endTime p = Some (Some e)"
    and "PartialTrip.vehicleId p = None"
    and "PartialTrip.startTime p = None"
  shows "DatabaseStorage_updateTrip no_faults i p db =
           (Inr (Some (set_trip p t)),
            db\<lparr>Database.trips :=
                 map (\<lambda>r. if Trip.id r = i then set_trip p r else r) (Database.trips db),
               Database.vehicles :=
                 map (\<lambda>r. if Vehicle.id r = Trip.vehicleId t
                          then r\<lparr>Vehicle.status := V_available,
                                 Vehicle.mileage :=
                                   or_number (PartialTrip.endOdometer p) (Vehicle.mileage v)\<rparr>
                          else r) (Database.vehicles db)\<rparr>)"
proof -
  from t obtain rest where st: "filter (\<lambda>r. Trip.id r = i) (Database.trips db) = t # rest"
    by (auto simp: getTrip_Some)
  from v obtain rest' where
    sv: "filter (\<lambda>r. Vehicle.id r = Trip.vehicleId t) (Database.vehicles db) = v # rest'"
    by (auto simp: getVehicle_Some)
  have st': "filter (\<lambda>r. Trip.id r = i)
               (map (\<lambda>r. if Trip.id r = i then set_trip p r else r) (Database.trips db))
             = set_trip p t # map (set_trip p) rest"
    using filter_update_where [of "\<lambda>r. Trip.id r = i" "set_trip p" "Database.trips db"] st
    by simp
  show ?thesis
    using assms(3-7) st st' sv
    by (simp add: DatabaseStorage_updateTrip_def updateTrip_tx_def store_defs)
qed

lemma set_maintenance_id [simp]: "Maintenance.id (set_maintenance p m) = Maintenance.id m"
  by (simp add: set_maintenance_def)

lemma set_maintenance_vehicleId [simp]:
  "Maintenance.vehicleId (set_maintenance p m)
     = or_keep (PartialMaintenance.vehicleId p) (Maintenance.vehicleId m)"
  by (simp add: set_maintenance_def)

lemma set_maintenance_status [simp]:
  "Maintenance.status (set_maintenance p m)
     = or_keep (PartialMaintenance.status p) (Maintenance.status m)"
  by (simp add: set_maintenance_def)

lemma filter_fresh_id:
  "\<forall>m \<in> set ms. Maintenance.id m \<noteq> i \<Longrightarrow> filter (\<lambda>m. Maintenance.id m = i) ms = []"
  by (induction ms) auto

lemma getBooking_Some:
  "getBooking db i = Some b \<longleftrightarrow>
     (\<exists>rest. filter (\<lambda>r. Booking.id r = i) (bookings db) = b # rest)"
  by (simp add: getBooking_def first_Some_iff)

lemma set_booking_id [simp]: "Booking.id (set_booking p b) = Booking.id b"
  by (simp add: set_booking_def)

text \<open>
  An update of a trip that carries a start time throws, whatever else it carries and whatever
  the store would do: the store is as before and the route answers 500.
\<close>

lemma updateTrip_startTime_throws:
  assumes "PartialTrip.startTime p = Some x"
  shows "DatabaseStorage_updateTrip flt i p db
           = (Inl (Error ''value.toISOString is not a function''), db)"
  using assms
  by (simp add: DatabaseStorage_updateTrip_def updateTrip_tx_def transaction_def bind_def
      unconverted_timestamp_def)

lemma put_trip_route_startTime:
  assumes "PartialTrip.startTime p = Some x" and "getTrip db i = Some t"
  shows "put_trip_route no_faults (Some (uid, Admin)) i p db
           = (Message 500 ''Internal server error'', db)"
proof -
  from assms(2) obtain rest where "filter (\<lambda>r. Trip.id r = i) (Database.trips db) = t # rest"
    by (auto simp: getTrip_Some)
  then show ?thesis
    by (simp add: put_trip_route_def select_where_def no_faults_def
        updateTrip_startTime_throws [OF assms(1)])
qed

text \<open>
  The creation of a maintenance record that carries a completion time throws in the same
  way: no row is inserted and the vehicle is not touched.
\<close>

lemma createMaintenance_completedAt_throws:
  assumes "InsertMaintenance.completedAt md = Some x"
  shows "DatabaseStorage_createMaintenance flt md db
           = (Inl (Error ''value.toISOString is not a function''), db)"
  using assms
  by (simp add: DatabaseStorage_createMaintenance_def createMaintenance_tx_def transaction_def
      bind_def unconverted_timestamp_def)

section \<open>Trip creation\<close>

text \<open>
  C1 (as amended). For every trip-creation input with status \<open>in_progress\<close> whose vehicle
  exists, and when the store refuses no statement: \<open>createTrip\<close> inserts the trip row and
  returns it; when the vehicle's status is \<open>available\<close> the vehicle's status is \<open>in_use\<close>
  afterwards; when it is anything else (\<open>maintenance\<close>, say) the creation succeeds all the
  same and the vehicles are left as they were.
\<close>

theorem createTrip_in_progress:
  assumes "InsertTrip.status tripData = Some T_in_progress"
    and "getVehicle db (InsertTrip.vehicleId tripData) = Some v"
  shows "(\<exists>t. fst (DatabaseStorage_createTrip no_faults tripData db) = Inr t
            \<and> Database.trips (snd (DatabaseStorage_createTrip no_faults tripData db))
                = Database.trips db @ [t])
       \<and> (Vehicle.status v = V_available \<longrightarrow>
            getVehicle (snd (DatabaseStorage_createTrip no_faults tripData db))
              (InsertTrip.vehicleId tripData) = Some (v\<lparr>Vehicle.status := V_in_use\<rparr>))
       \<and> (Vehicle.status v \<noteq> V_available \<longrightarrow>
            Database.vehicles (snd (DatabaseStorage_createTrip no_faults tripData db))
              = Database.vehicles db)"
proof -
  from assms(2) obtain rest where
    sel: "filter (\<lambda>r. Vehicle.id r = InsertTrip.vehicleId tripData) (Database.vehicles db)
            = v # rest"
    by (auto simp: getVehicle_Some)
  show ?thesis
    using assms(1) sel
    by (simp add: DatabaseStorage_createTrip_def createTrip_tx_def store_defs getVehicle_def
        filter_update_where)
qed

theorem createTrip_in_progress_witness:
  "getVehicle (snd (DatabaseStorage_createTrip no_faults (example_trip (Some T_in_progress))
       (example_db V_available 1000))) 1 = Some (example_vehicle 1 V_in_use 1000)
   \<and> Database.vehicles (snd (DatabaseStorage_createTrip no_faults
       (example_trip (Some T_in_progress)) (example_db V_out_of_service 1000)))
     = [example_vehicle 1 V_out_of_service 1000]"
proof -
  have s: "InsertTrip.status (example_trip (Some T_in_progress)) = Some T_in_progress"
    by (simp add: example_trip_def)
  have a: "getVehicle (example_db V_available 1000)
             (InsertTrip.vehicleId (example_trip (Some T_in_progress)))
           = Some (example_vehicle 1 V_available 1000)"
    by (simp add: getVehicle_def example_defs)
  have b: "getVehicle (example_db V_out_of_service 1000)
             (InsertTrip.vehicleId (example_trip (Some T_in_progress)))
           = Some (example_vehicle 1 V_out_of_service 1000)"
    by (simp add: getVehicle_def example_defs)
  show ?thesis
    using createTrip_in_progress [OF s a] createTrip_in_progress [OF s b]
    by (simp add: example_defs)
qed

text \<open>
  Against a vehicle in maintenance the creation does not fail: the trip row is inserted and
  returned, and the vehicle stays in maintenance.
\<close>

theorem createTrip_maintenance_counterexample:
  "DatabaseStorage_createTrip no_faults (example_trip (Some T_in_progress))
     (example_db V_maintenance 1000)
   = (Inr (example_trip_row 1000 T_in_progress), example_db_trip V_maintenance 1000 1000)"
  by (simp add: DatabaseStorage_createTrip_def createTrip_tx_def store_defs example_defs)

section \<open>Booking creation\<close>

text \<open>
  C2. For every booking-creation input, when the store answers the look-up of the vehicle:
  if the vehicle does not exist, \<open>createBooking\<close> throws \<open>Vehicle not found\<close>, which the
  route answers with 404; if it exists and its status is not \<open>available\<close>, \<open>createBooking\<close>
  throws \<open>Vehicle not available\<close> (with the status), which the route answers with 422. In
  both cases the store is as before: no booking row is persisted.
\<close>

theorem createBooking_rejects:
  assumes "\<not> flt 0"
  shows "(getVehicle db (InsertBooking.vehicleId bookingData) = None \<longrightarrow>
            DatabaseStorage_createBooking flt now bookingData db
              = (Inl (Error ''Vehicle not found''), db)
          \<and> post_booking_route flt now (Some u) bookingData db
              = (Message 404 ''Vehicle not found'', db))
       \<and> (\<forall>v. getVehicle db (InsertBooking.vehicleId bookingData) = Some v
                 \<and> Vehicle.status v \<noteq> V_available \<longrightarrow>
            DatabaseStorage_createBooking flt now bookingData db
              = (Inl (Error (''Vehicle not available (status: ''
                              @ status_name (Vehicle.status v) @ '')'')), db)
          \<and> post_booking_route flt now (Some u) bookingData db
              = (Message 422 (''Vehicle not available (status: ''
                              @ status_name (Vehicle.status v) @ '')''), db))"
proof (intro conjI impI allI)
  assume "getVehicle db (InsertBooking.vehicleId bookingData) = None"
  then have sel: "filter (\<lambda>r. Vehicle.id r = InsertBooking.vehicleId bookingData)
                    (Database.vehicles db) = []"
    by (simp add: getVehicle_None)
  show c: "DatabaseStorage_createBooking flt now bookingData db
             = (Inl (Error ''Vehicle not found''), db)"
    using assms sel by (simp add: DatabaseStorage_createBooking_def select_where_def)
  show "post_booking_route flt now (Some u) bookingData db
          = (Message 404 ''Vehicle not found'', db)"
    by (simp add: post_booking_route_def c)
next
  fix v
  assume h: "getVehicle db (InsertBooking.vehicleId bookingData) = Some v
               \<and> Vehicle.status v \<noteq> V_available"
  then obtain rest where
    sel: "filter (\<lambda>r. Vehicle.id r = InsertBooking.vehicleId bookingData)
            (Database.vehicles db) = v # rest"
    by (auto simp: getVehicle_Some)
  show c: "DatabaseStorage_createBooking flt now bookingData db
             = (Inl (Error (''Vehicle not available (status: ''
                             @ status_name (Vehicle.status v) @ '')'')), db)"
    using assms sel h by (simp add: DatabaseStorage_createBooking_def select_where_def)
  show "post_booking_route flt now (Some u) bookingData db
          = (Message 422 (''Vehicle not available (status: ''
                          @ status_name (Vehicle.status v) @ '')''), db)"
    using not_available_message [of "Vehicle.status v"] h
    by (simp add: post_booking_route_def c del: string_includes.simps starts_with.simps)
qed

theorem createBooking_rejects_witness:
  "post_booking_route no_faults 0 (Some (5, Moderator)) (example_booking 2)
     (example_db V_in_use 1000)
     = (Message 404 ''Vehicle not found'', example_db V_in_use 1000)
   \<and> DatabaseStorage_createBooking no_faults 0 (example_booking 1) (example_db V_in_use 1000)
     = (Inl (Error ''Vehicle not available (status: in_use)''), example_db V_in_use 1000)
   \<and> post_booking_route no_faults 0 (Some (5, Moderator)) (example_booking 1)
     (example_db V_in_use 1000)
     = (Message 422 ''Vehicle not available (status: in_use)'', example_db V_in_use 1000)"
proof -
  have f: "\<not> no_faults 0" by (simp add: no_faults_def)
  have a: "getVehicle (example_db V_in_use 1000) (InsertBooking.vehicleId (example_booking 2))
             = None"
    by (simp add: getVehicle_def example_defs)
  have b: "getVehicle (example_db V_in_use 1000) (InsertBooking.vehicleId (example_booking 1))
             = Some (example_vehicle 1 V_in_use 1000)
           \<and> Vehicle.status (example_vehicle 1 V_in_use 1000) \<noteq> V_available"
    by (simp add: getVehicle_def example_defs)
  have n: "status_name (Vehicle.status (example_vehicle 1 V_in_use 1000)) = ''in_use''"
    by (simp add: example_vehicle_def)
  from createBooking_rejects [where flt = no_faults and db = "example_db V_in_use 1000"
      and bookingData = "example_booking 2" and now = 0 and u = "(5, Moderator)"] f a
  have 1: "post_booking_route no_faults 0 (Some (5, Moderator)) (example_booking 2)
             (example_db V_in_use 1000)
           = (Message 404 ''Vehicle not found'', example_db V_in_use 1000)"
    by blast
  from createBooking_rejects [where flt = no_faults and db = "example_db V_in_use 1000"
      and bookingData = "example_booking 1" and now = 0 and u = "(5, Moderator)"] f b
  have 2: "DatabaseStorage_createBooking no_faults 0 (example_booking 1)
             (example_db V_in_use 1000)
           = (Inl (Error (''Vehicle not available (status: ''
                @ status_name (Vehicle.status (example_vehicle 1 V_in_use 1000)) @ '')'')),
              example_db V_in_use 1000)
         \<and> post_booking_route no_faults 0 (Some (5, Moderator)) (example_booking 1)
             (example_db V_in_use 1000)
           = (Message 422 (''Vehicle not available (status: ''
                @ status_name (Vehicle.status (example_vehicle 1 V_in_use 1000)) @ '')''),
              example_db V_in_use 1000)"
    by blast
  from 1 2 show ?thesis unfolding n by simp
qed

section \<open>Trip completion\<close>

text \<open>
  C3 (as amended). For every trip with status \<open>in_progress\<close> on a vehicle with status
  \<open>in_use\<close> and prior mileage \<open>M\<close>, when the store refuses no statement: updating the trip
  with status \<open>completed\<close>, an end time and end odometer \<open>X \<ge> startOdometer\<close>, the update
  carrying neither a vehicle id nor a start time, sets the vehicle's status back to
  \<open>available\<close> and its mileage to \<open>X\<close>, or leaves the mileage \<open>M\<close> when \<open>X = 0\<close>. That is
  \<open>max M X\<close> whenever \<open>0 \<le> M \<le> X\<close>.
\<close>

theorem updateTrip_complete_mileage:
  assumes "getTrip db i = Some t"
    and "Trip.status t = T_in_progress"
    and "getVehicle db (Trip.vehicleId t) = Some v"
    and "Vehicle.status v = V_in_use"
    and "PartialTrip.status p = Some T_completed"
    and "PartialTrip.endTime p = Some (Some e)"
    and "PartialTrip.endOdometer p = Some (Some X)"
    and "PartialTrip.vehicleId p = None"
    and "PartialTrip.startTime p = None"
    and "X \<ge> Trip.startOdometer t"
  shows "getVehicle (snd (DatabaseStorage_updateTrip no_faults i p db)) (Trip.vehicleId t)
           = Some (v\<lparr>Vehicle.status := V_available,
                     Vehicle.mileage := (if X = 0 then Vehicle.mileage v else X)\<rparr>)
       \<and> (0 \<le> Vehicle.mileage v \<and> Vehicle.mileage v \<le> X \<longrightarrow>
            getVehicle (snd (DatabaseStorage_updateTrip no_faults i p db)) (Trip.vehicleId t)
              = Some (v\<lparr>Vehicle.status := V_available,
                        Vehicle.mileage := max (Vehicle.mileage v) X\<rparr>))"
proof -
  have "getVehicle (snd (DatabaseStorage_updateTrip no_faults i p db)) (Trip.vehicleId t)
           = Some (v\<lparr>Vehicle.status := V_available,
                     Vehicle.mileage :=
                       or_number (PartialTrip.endOdometer p) (Vehicle.mileage v)\<rparr>)"
    by (rule getVehicle_after_update [OF assms(3)])
       (simp_all add: updateTrip_complete_in_use
          [OF assms(1) assms(3) assms(4) assms(5) assms(6) assms(8) assms(9)])
  then have "getVehicle (snd (DatabaseStorage_updateTrip no_faults i p db)) (Trip.vehicleId t)
           = Some (v\<lparr>Vehicle.status := V_available,
                     Vehicle.mileage := (if X = 0 then Vehicle.mileage v else X)\<rparr>)"
    using assms(7) by simp
  then show ?thesis by (auto simp: max_def)
qed

theorem updateTrip_complete_mileage_witness:
  "getVehicle (snd (DatabaseStorage_updateTrip no_faults 1 (example_completion 1200)
       (example_db_trip V_in_use 1000 1000))) 1 = Some (example_vehicle 1 V_available 1200)"
proof -
  have t: "getTrip (example_db_trip V_in_use 1000 1000) 1
             = Some (example_trip_row 1000 T_in_progress)"
    by (simp add: getTrip_def example_defs)
  have s: "Trip.status (example_trip_row 1000 T_in_progress) = T_in_progress"
    by (simp add: example_defs)
  have v: "getVehicle (example_db_trip V_in_use 1000 1000)
             (Trip.vehicleId (example_trip_row 1000 T_in_progress))
           = Some (example_vehicle 1 V_in_use 1000)"
    by (simp add: getVehicle_def example_defs)
  have u: "Vehicle.status (example_vehicle 1 V_in_use 1000) = V_in_use"
    by (simp add: example_defs)
  have p1: "PartialTrip.status (example_completion 1200) = Some T_completed"
    and p2: "PartialTrip.endTime (example_completion 1200) = Some (Some 3600000)"
    and p3: "PartialTrip.endOdometer (example_completion 1200) = Some (Some 1200)"
    and p4: "PartialTrip.vehicleId (example_completion 1200) = None"
    and p5: "PartialTrip.startTime (example_completion 1200) = None"
    by (simp_all add: example_defs)
  have o: "1200 \<ge> Trip.startOdometer (example_trip_row 1000 T_in_progress)"
    by (simp add: example_defs)
  show ?thesis
    using updateTrip_complete_mileage [OF t s v u p1 p2 p3 p4 p5 o]
    by (simp add: example_defs)
qed

text \<open>
  A trip that started at odometer 100 on a vehicle with mileage 1000 and ends at odometer
  500: the mileage drops to 500, which is not the maximum of 1000 and 500.
\<close>

theorem updateTrip_mileage_counterexample:
  "getVehicle (snd (DatabaseStorage_updateTrip no_faults 1 (example_completion 500)
       (example_db_trip V_in_use 1000 100))) 1 = Some (example_vehicle 1 V_available 500)
   \<and> Trip.startOdometer (example_trip_row 100 T_in_progress) \<le> 500
   \<and> max 1000 500 \<noteq> (500::int)"
  by (simp add: DatabaseStorage_updateTrip_def updateTrip_tx_def store_defs getVehicle_def
      set_trip_def example_defs)

text \<open>
  C4 (as amended). For every trip and every completion update (status \<open>completed\<close>, an end
  time, an end odometer) whose end odometer is strictly less than the trip's start odometer
  and which carries no start time, when the store refuses no statement: \<open>updateTrip\<close>
  accepts the update. No validation error is raised, the route answers an administrator
  with 200 and the updated trip, the trip row takes the update with the end odometer as
  given, and, when the update carries no vehicle id, a vehicle in use is set to \<open>available\<close>
  with that odometer as its mileage (its own mileage when the odometer is \<open>0\<close>).
\<close>

theorem updateTrip_accepts_lower_odometer:
  assumes "getTrip db i = Some t"
    and "PartialTrip.status p = Some T_completed"
    and "PartialTrip.endTime p = Some (Some e)"
    and "PartialTrip.endOdometer p = Some (Some X)"
    and "X < Trip.startOdometer t"
    and "PartialTrip.startTime p = None"
  shows "fst (DatabaseStorage_updateTrip no_faults i p db) = Inr (Some (set_trip p t))
       \<and> fst (put_trip_route no_faults (Some (uid, Admin)) i p db) = Json 200 (set_trip p t)
       \<and> getTrip (snd (DatabaseStorage_updateTrip no_faults i p db)) i = Some (set_trip p t)
       \<and> Trip.endOdometer (set_trip p t) = Some X
       \<and> (\<forall>v. getVehicle db (Trip.vehicleId t) = Some v \<and> Vehicle.status v = V_in_use
                \<and> PartialTrip.vehicleId p = None \<longrightarrow>
            getVehicle (snd (DatabaseStorage_updateTrip no_faults i p db)) (Trip.vehicleId t)
              = Some (v\<lparr>Vehicle.status := V_available,
                        Vehicle.mileage := (if X = 0 then Vehicle.mileage v else X)\<rparr>))"
proof -
  from assms(1) obtain rest where
    st: "filter (\<lambda>r. Trip.id r = i) (Database.trips db) = t # rest"
    by (auto simp: getTrip_Some)
  have st': "filter (\<lambda>r. Trip.id r = i)
               (map (\<lambda>r. if Trip.id r = i then set_trip p r else r) (Database.trips db))
             = set_trip p t # map (set_trip p) rest"
    using filter_update_where [of "\<lambda>r. Trip.id r = i" "set_trip p" "Database.trips db"] st
    by simp
  have r: "fst (DatabaseStorage_updateTrip no_faults i p db) = Inr (Some (set_trip p t))"
    using assms(2,3,6) st st'
    by (simp add: DatabaseStorage_updateTrip_def updateTrip_tx_def store_defs
        split: list.splits)
  have ts: "Database.trips (snd (DatabaseStorage_updateTrip no_faults i p db))
             = map (\<lambda>r. if Trip.id r = i then set_trip p r else r) (Database.trips db)"
    using assms(2,3,6) st st'
    by (simp add: DatabaseStorage_updateTrip_def updateTrip_tx_def store_defs
        split: list.splits)
  have g: "getTrip (snd (DatabaseStorage_updateTrip no_faults i p db)) i = Some (set_trip p t)"
    by (simp add: getTrip_def ts st')
  have route: "fst (put_trip_route no_faults (Some (uid, Admin)) i p db)
                 = Json 200 (set_trip p t)"
  proof -
    have "shift 1 no_faults = no_faults" by (simp add: shift_def no_faults_def)
    moreover obtain db' where
      "DatabaseStorage_updateTrip no_faults i p db = (Inr (Some (set_trip p t)), db')"
      using r by (cases "DatabaseStorage_updateTrip no_faults i p db") simp
    ultimately show ?thesis
      using st by (simp add: put_trip_route_def select_where_def no_faults_def)
  qed
  have e: "Trip.endOdometer (set_trip p t) = Some X"
    using assms(4) by (simp add: set_trip_def)
  have veh: "getVehicle (snd (DatabaseStorage_updateTrip no_faults i p db)) (Trip.vehicleId t)
               = Some (v\<lparr>Vehicle.status := V_available,
                         Vehicle.mileage := (if X = 0 then Vehicle.mileage v else X)\<rparr>)"
    if h: "getVehicle db (Trip.vehicleId t) = Some v \<and> Vehicle.status v = V_in_use
             \<and> PartialTrip.vehicleId p = None" for v
  proof -
    from h have hv: "getVehicle db (Trip.vehicleId t) = Some v"
      and hs: "Vehicle.status v = V_in_use" and hp: "PartialTrip.vehicleId p = None"
      by simp_all
    note eq = updateTrip_complete_in_use [OF assms(1) hv hs assms(2) assms(3) hp assms(6)]
    have "getVehicle (snd (DatabaseStorage_updateTrip no_faults i p db)) (Trip.vehicleId t)
            = Some (v\<lparr>Vehicle.status := V_available,
                      Vehicle.mileage :=
                        or_number (PartialTrip.endOdometer p) (Vehicle.mileage v)\<rparr>)"
      by (rule getVehicle_after_update [OF hv]) (simp_all add: eq)
    then show ?thesis using assms(4) by simp
  qed
  from r route g e veh show ?thesis by blast
qed

theorem updateTrip_accepts_lower_odometer_witness:
  "fst (put_trip_route no_faults (Some (7, Admin)) 1 (example_completion 900)
          (example_db_trip V_in_use 1000 1000)) = Json 200 (example_completed_trip_row 1000 900)
   \<and> getVehicle (snd (DatabaseStorage_updateTrip no_faults 1 (example_completion 900)
          (example_db_trip V_in_use 1000 1000))) 1 = Some (example_vehicle 1 V_available 900)"
proof -
  have t: "getTrip (example_db_trip V_in_use 1000 1000) 1
             = Some (example_trip_row 1000 T_in_progress)"
    by (simp add: getTrip_def example_defs)
  have p1: "PartialTrip.status (example_completion 900) = Some T_completed"
    and p2: "PartialTrip.endTime (example_completion 900) = Some (Some 3600000)"
    and p3: "PartialTrip.endOdometer (example_completion 900) = Some (Some 900)"
    and p4: "PartialTrip.startTime (example_completion 900) = None"
    by (simp_all add: example_defs)
  have o: "900 < Trip.startOdometer (example_trip_row 1000 T_in_progress)"
    by (simp add: example_defs)
  have v: "getVehicle (example_db_trip V_in_use 1000 1000)
             (Trip.vehicleId (example_trip_row 1000 T_in_progress))
           = Some (example_vehicle 1 V_in_use 1000)
         \<and> Vehicle.status (example_vehicle 1 V_in_use 1000) = V_in_use
         \<and> PartialTrip.vehicleId (example_completion 900) = None"
    by (simp add: getVehicle_def example_defs)
  have s: "set_trip (example_completion 900) (example_trip_row 1000 T_in_progress)
             = example_completed_trip_row 1000 900"
    by (simp add: set_trip_def example_defs)
  have i: "Trip.vehicleId (example_trip_row 1000 T_in_progress) = 1"
    by (simp add: example_defs)
  from updateTrip_accepts_lower_odometer [OF t p1 p2 p3 o p4, of 7] v
  have "fst (put_trip_route no_faults (Some (7, Admin)) 1 (example_completion 900)
               (example_db_trip V_in_use 1000 1000))
          = Json 200 (set_trip (example_completion 900) (example_trip_row 1000 T_in_progress))
      \<and> getVehicle (snd (DatabaseStorage_updateTrip no_faults 1 (example_completion 900)
               (example_db_trip V_in_use 1000 1000)))
            (Trip.vehicleId (example_trip_row 1000 T_in_progress))
          = Some ((example_vehicle 1 V_in_use 1000)\<lparr>Vehicle.status := V_available,
                    Vehicle.mileage := (if (900::int) = 0
                      then Vehicle.mileage (example_vehicle 1 V_in_use 1000) else 900)\<rparr>)"
    by blast
  then show ?thesis unfolding s i
    by (simp add: example_vehicle_def)
qed

text \<open>
  The completion of a trip that started at odometer 1000 with end odometer 900: the route
  answers 200 with the updated trip, and both the trip and the vehicle have changed.
\<close>

theorem updateTrip_validation_counterexample:
  "put_trip_route no_faults (Some (7, Moderator)) 1 (example_completion 900)
     (example_db_trip V_in_use 1000 1000)
   = (Json 200 (example_completed_trip_row 1000 900),
      (example_db_trip V_available 900 1000)
        \<lparr>Database.trips := [example_completed_trip_row 1000 900]\<rparr>)
   \<and> 900 < Trip.startOdometer (example_trip_row 1000 T_in_progress)"
  by (simp add: put_trip_route_def DatabaseStorage_updateTrip_def updateTrip_tx_def store_defs
      set_trip_def example_defs)

section \<open>Atomicity\<close>

text \<open>
  C5. For each of the four operations that write a dependent record and the vehicle
  (\<open>createTrip\<close>, \<open>updateTrip\<close>, \<open>createMaintenance\<close>, \<open>updateMaintenance\<close>) and whatever
  statements the store refuses: either the operation throws and the store is exactly as
  before, or it has the whole effect it has when nothing is refused. In particular, a trip
  started on an available vehicle is never left inserted with the vehicle not in use.
\<close>

theorem writes_all_or_nothing:
  "((\<exists>e. DatabaseStorage_createTrip flt tripData db = (Inl e, db))
      \<or> DatabaseStorage_createTrip flt tripData db
          = DatabaseStorage_createTrip no_faults tripData db)
   \<and> ((\<exists>e. DatabaseStorage_updateTrip flt i tripPatch db = (Inl e, db))
      \<or> DatabaseStorage_updateTrip flt i tripPatch db
          = DatabaseStorage_updateTrip no_faults i tripPatch db)
   \<and> ((\<exists>e. DatabaseStorage_createMaintenance flt maintenanceData db = (Inl e, db))
      \<or> DatabaseStorage_createMaintenance flt maintenanceData db
          = DatabaseStorage_createMaintenance no_faults maintenanceData db)
   \<and> ((\<exists>e. DatabaseStorage_updateMaintenance flt j maintenancePatch db = (Inl e, db))
      \<or> DatabaseStorage_updateMaintenance flt j maintenancePatch db
          = DatabaseStorage_updateMaintenance no_faults j maintenancePatch db)
   \<and> (InsertTrip.status tripData = Some T_in_progress
        \<and> getVehicle db (InsertTrip.vehicleId tripData) = Some v
        \<and> Vehicle.status v = V_available
        \<and> Database.trips (snd (DatabaseStorage_createTrip flt tripData db)) \<noteq> Database.trips db
      \<longrightarrow> getVehicle (snd (DatabaseStorage_createTrip flt tripData db))
            (InsertTrip.vehicleId tripData) = Some (v\<lparr>Vehicle.status := V_in_use\<rparr>))"
proof (intro conjI)
  show ct: "(\<exists>e. DatabaseStorage_createTrip flt tripData db = (Inl e, db))
      \<or> DatabaseStorage_createTrip flt tripData db
          = DatabaseStorage_createTrip no_faults tripData db"
    by (simp add: DatabaseStorage_createTrip_def createTrip_tx_def store_defs
        split: list.splits)
  show "(\<exists>e. DatabaseStorage_updateTrip flt i tripPatch db = (Inl e, db))
      \<or> DatabaseStorage_updateTrip flt i tripPatch db
          = DatabaseStorage_updateTrip no_faults i tripPatch db"
  proof (cases "PartialTrip.startTime tripPatch")
    case None
    then show ?thesis
      by (simp add: DatabaseStorage_updateTrip_def updateTrip_tx_def store_defs
          split: list.splits)
  next
    case (Some x)
    then show ?thesis by (simp add: updateTrip_startTime_throws)
  qed
  show "(\<exists>e. DatabaseStorage_createMaintenance flt maintenanceData db = (Inl e, db))
      \<or> DatabaseStorage_createMaintenance flt maintenanceData db
          = DatabaseStorage_createMaintenance no_faults maintenanceData db"
  proof (cases "InsertMaintenance.completedAt maintenanceData")
    case None
    then show ?thesis
      by (simp add: DatabaseStorage_createMaintenance_def createMaintenance_tx_def store_defs
          split: list.splits)
  next
    case (Some x)
    then show ?thesis by (simp add: createMaintenance_completedAt_throws)
  qed
  show "(\<exists>e. DatabaseStorage_updateMaintenance flt j maintenancePatch db = (Inl e, db))
      \<or> DatabaseStorage_updateMaintenance flt j maintenancePatch db
          = DatabaseStorage_updateMaintenance no_faults j maintenancePatch db"
    by (simp add: DatabaseStorage_updateMaintenance_def updateMaintenance_tx_def store_defs
        split: list.splits)
  show "InsertTrip.status tripData = Some T_in_progress
        \<and> getVehicle db (InsertTrip.vehicleId tripData) = Some v
        \<and> Vehicle.status v = V_available
        \<and> Database.trips (snd (DatabaseStorage_createTrip flt tripData db)) \<noteq> Database.trips db
      \<longrightarrow> getVehicle (snd (DatabaseStorage_createTrip flt tripData db))
            (InsertTrip.vehicleId tripData) = Some (v\<lparr>Vehicle.status := V_in_use\<rparr>)"
  proof
    assume h: "InsertTrip.status tripData = Some T_in_progress
        \<and> getVehicle db (InsertTrip.vehicleId tripData) = Some v
        \<and> Vehicle.status v = V_available
        \<and> Database.trips (snd (DatabaseStorage_createTrip flt tripData db)) \<noteq> Database.trips db"
    then obtain rest where
      sel: "filter (\<lambda>r. Vehicle.id r = InsertTrip.vehicleId tripData) (Database.vehicles db)
              = v # rest"
      by (auto simp: getVehicle_Some)
    from h ct have eq: "DatabaseStorage_createTrip flt tripData db
                          = DatabaseStorage_createTrip no_faults tripData db"
      by auto
    show "getVehicle (snd (DatabaseStorage_createTrip flt tripData db))
            (InsertTrip.vehicleId tripData) = Some (v\<lparr>Vehicle.status := V_in_use\<rparr>)"
      unfolding eq using h sel
      by (simp add: DatabaseStorage_createTrip_def createTrip_tx_def store_defs getVehicle_def
          filter_update_where)
  qed
qed

text \<open>
  The store refuses the update of the vehicle (statement 2) of a trip creation: the
  creation throws and the trip inserted by statement 0 is not there.
\<close>

theorem writes_all_or_nothing_witness:
  "DatabaseStorage_createTrip (\<lambda>k. k = 2) (example_trip (Some T_in_progress))
     (example_db V_available 1000) = (Inl (StoreError 2), example_db V_available 1000)
   \<and> getVehicle (snd (DatabaseStorage_createTrip (\<lambda>k. k = 7)
        (example_trip (Some T_in_progress)) (example_db V_available 1000))) 1
     = Some (example_vehicle 1 V_in_use 1000)"
proof -
  have a: "DatabaseStorage_createTrip (\<lambda>k. k = 2) (example_trip (Some T_in_progress))
             (example_db V_available 1000) = (Inl (StoreError 2), example_db V_available 1000)"
    by (simp add: DatabaseStorage_createTrip_def createTrip_tx_def store_defs example_defs)
  have h: "InsertTrip.status (example_trip (Some T_in_progress)) = Some T_in_progress
        \<and> getVehicle (example_db V_available 1000)
             (InsertTrip.vehicleId (example_trip (Some T_in_progress)))
            = Some (example_vehicle 1 V_available 1000)
        \<and> Vehicle.status (example_vehicle 1 V_available 1000) = V_available
        \<and> Database.trips (snd (DatabaseStorage_createTrip (\<lambda>k. k = 7)
             (example_trip (Some T_in_progress)) (example_db V_available 1000)))
            \<noteq> Database.trips (example_db V_available 1000)"
    by (simp add: DatabaseStorage_createTrip_def createTrip_tx_def store_defs getVehicle_def
        example_defs)
  from writes_all_or_nothing [where flt = "\<lambda>k. k = 7"
      and tripData = "example_trip (Some T_in_progress)"
      and db = "example_db V_available 1000" and v = "example_vehicle 1 V_available 1000"] h
  have "getVehicle (snd (DatabaseStorage_createTrip (\<lambda>k. k = 7)
          (example_trip (Some T_in_progress)) (example_db V_available 1000)))
          (InsertTrip.vehicleId (example_trip (Some T_in_progress)))
        = Some ((example_vehicle 1 V_available 1000)\<lparr>Vehicle.status := V_in_use\<rparr>)"
    by blast
  then show ?thesis using a by (simp add: example_defs)
qed

section \<open>Maintenance\<close>

text \<open>
  C6. For every vehicle whose status is \<open>available\<close>, when the store refuses no statement
  and the sequence of the maintenance table is ahead of the ids in it: creating a
  maintenance record whose initial status is not \<open>completed\<close>, and which has no completion
  time yet, sets the vehicle's status to \<open>maintenance\<close> and changes nothing else of the
  vehicle; updating that record to status \<open>completed\<close> (with a completion time, and without
  moving it to another vehicle) then gives back the vehicle as it was, status \<open>available\<close>
  and mileage included.
\<close>

theorem maintenance_round_trip:
  assumes "getVehicle db (InsertMaintenance.vehicleId md) = Some v"
    and "Vehicle.status v = V_available"
    and "InsertMaintenance.status md \<noteq> Some M_completed"
    and "\<forall>m \<in> set (maintenance db). Maintenance.id m \<noteq> maintenance_id_seq db"
    and "PartialMaintenance.status p = Some M_completed"
    and "PartialMaintenance.completedAt p = Some (Some c)"
    and "PartialMaintenance.vehicleId p = None"
    and "InsertMaintenance.completedAt md = None"
  shows "\<exists>m m'. fst (DatabaseStorage_createMaintenance no_faults md db) = Inr m
       \<and> getVehicle (snd (DatabaseStorage_createMaintenance no_faults md db))
            (InsertMaintenance.vehicleId md) = Some (v\<lparr>Vehicle.status := V_maintenance\<rparr>)
       \<and> fst (DatabaseStorage_updateMaintenance no_faults (Maintenance.id m) p
              (snd (DatabaseStorage_createMaintenance no_faults md db))) = Inr (Some m')
       \<and> Maintenance.status m' = M_completed
       \<and> getVehicle (snd (DatabaseStorage_updateMaintenance no_faults (Maintenance.id m) p
              (snd (DatabaseStorage_createMaintenance no_faults md db))))
            (InsertMaintenance.vehicleId md) = Some v"
proof -
  define vid where "vid = InsertMaintenance.vehicleId md"
  define row where "row =
     \<lparr>Maintenance.id = maintenance_id_seq db,
      Maintenance.vehicleId = InsertMaintenance.vehicleId md,
      Maintenance.type = InsertMaintenance.type md,
      Maintenance.description = InsertMaintenance.description md,
      Maintenance.date = InsertMaintenance.date md,
      Maintenance.cost = InsertMaintenance.cost md,
      Maintenance.odometer = InsertMaintenance.odometer md,
      Maintenance.status = (case InsertMaintenance.status md of None \<Rightarrow> M_pending | Some s \<Rightarrow> s),
      Maintenance.notes = InsertMaintenance.notes md,
      Maintenance.completedAt = InsertMaintenance.completedAt md\<rparr>"
  define vs1 where "vs1 = map (\<lambda>r. if Vehicle.id r = vid
                                 then r\<lparr>Vehicle.status := V_maintenance\<rparr> else r)
                            (Database.vehicles db)"
  define db1 where "db1 = db\<lparr>maintenance := maintenance db @ [row],
                            maintenance_id_seq := maintenance_id_seq db + 1,
                            Database.vehicles := vs1\<rparr>"
  from assms(1) obtain rest where
    sel: "filter (\<lambda>r. Vehicle.id r = vid) (Database.vehicles db) = v # rest"
    by (auto simp: getVehicle_Some vid_def)
  have create: "DatabaseStorage_createMaintenance no_faults md db = (Inr row, db1)"
    using assms(2,3,8) sel
    by (simp add: DatabaseStorage_createMaintenance_def createMaintenance_tx_def store_defs
        row_def db1_def vs1_def vid_def)
  have sel1: "filter (\<lambda>r. Vehicle.id r = vid) vs1
                = v\<lparr>Vehicle.status := V_maintenance\<rparr>
                  # map (\<lambda>r. r\<lparr>Vehicle.status := V_maintenance\<rparr>) rest"
    using filter_update_where [of "\<lambda>r. Vehicle.id r = vid"
        "\<lambda>r. r\<lparr>Vehicle.status := V_maintenance\<rparr>" "Database.vehicles db"] sel
    by (simp add: vs1_def)
  have g1: "getVehicle db1 vid = Some (v\<lparr>Vehicle.status := V_maintenance\<rparr>)"
    by (simp add: getVehicle_def db1_def sel1)
  have rid: "Maintenance.id row = maintenance_id_seq db" and rv: "Maintenance.vehicleId row = vid"
    by (simp_all add: row_def vid_def)
  have selm: "filter (\<lambda>m. Maintenance.id m = maintenance_id_seq db) (maintenance db1) = [row]"
    using filter_fresh_id [OF assms(4)] by (simp add: db1_def rid)
  have selm': "filter (\<lambda>m. Maintenance.id m = maintenance_id_seq db)
                 (map (\<lambda>r. if Maintenance.id r = maintenance_id_seq db
                            then set_maintenance p r else r) (maintenance db1))
               = [set_maintenance p row]"
    using filter_update_where [of "\<lambda>m. Maintenance.id m = maintenance_id_seq db"
        "set_maintenance p" "maintenance db1"] selm
    by simp
  define vs2 where "vs2 = map (\<lambda>r. if Vehicle.id r = vid
                                 then r\<lparr>Vehicle.status := V_available\<rparr> else r) vs1"
  have v1: "Database.vehicles db1 = vs1" by (simp add: db1_def)
  have update: "DatabaseStorage_updateMaintenance no_faults (maintenance_id_seq db) p db1
      = (Inr (Some (set_maintenance p row)),
         db1\<lparr>maintenance := map (\<lambda>r. if Maintenance.id r = maintenance_id_seq db
                                        then set_maintenance p r else r) (maintenance db1),
             Database.vehicles := vs2\<rparr>)"
    using assms(5,7) selm selm' sel1 rv v1
    by (simp add: DatabaseStorage_updateMaintenance_def updateMaintenance_tx_def store_defs
        vs2_def)
  have sel2: "filter (\<lambda>r. Vehicle.id r = vid) vs2
                = v\<lparr>Vehicle.status := V_maintenance, Vehicle.status := V_available\<rparr>
                  # map (\<lambda>r. r\<lparr>Vehicle.status := V_available\<rparr>)
                      (map (\<lambda>r. r\<lparr>Vehicle.status := V_maintenance\<rparr>) rest)"
    using filter_update_where [of "\<lambda>r. Vehicle.id r = vid"
        "\<lambda>r. r\<lparr>Vehicle.status := V_available\<rparr>" vs1] sel1
    by (simp add: vs2_def)
  have restored: "v\<lparr>Vehicle.status := V_maintenance, Vehicle.status := V_available\<rparr> = v"
    using assms(2) by simp
  have g2: "getVehicle (snd (DatabaseStorage_updateMaintenance no_faults (maintenance_id_seq db)
               p db1)) vid = Some v"
    by (simp add: update getVehicle_def sel2 restored)
  have st: "Maintenance.status (set_maintenance p row) = M_completed"
    using assms(5) by simp
  show ?thesis
    using create g1 update g2 st rid by (simp add: vid_def)
qed

theorem maintenance_round_trip_witness:
  "getVehicle (snd (DatabaseStorage_createMaintenance no_faults
       (example_maintenance (Some M_pending)) (example_db V_available 1000))) 1
     = Some (example_vehicle 1 V_maintenance 1000)
   \<and> getVehicle (snd (DatabaseStorage_updateMaintenance no_faults 1
       example_maintenance_completion
       (snd (DatabaseStorage_createMaintenance no_faults
          (example_maintenance (Some M_pending)) (example_db V_available 1000))))) 1
     = Some (example_vehicle 1 V_available 1000)"
proof -
  have v: "getVehicle (example_db V_available 1000)
             (InsertMaintenance.vehicleId (example_maintenance (Some M_pending)))
           = Some (example_vehicle 1 V_available 1000)"
    by (simp add: getVehicle_def example_defs)
  have a: "Vehicle.status (example_vehicle 1 V_available 1000) = V_available"
    by (simp add: example_defs)
  have s: "InsertMaintenance.status (example_maintenance (Some M_pending)) \<noteq> Some M_completed"
    by (simp add: example_defs)
  have f: "\<forall>m \<in> set (maintenance (example_db V_available 1000)).
             Maintenance.id m \<noteq> maintenance_id_seq (example_db V_available 1000)"
    by (simp add: example_defs)
  have p1: "PartialMaintenance.status example_maintenance_completion = Some M_completed"
    and p2: "PartialMaintenance.completedAt example_maintenance_completion
               = Some (Some 1704103200000)"
    and p3: "PartialMaintenance.vehicleId example_maintenance_completion = None"
    and n: "InsertMaintenance.completedAt (example_maintenance (Some M_pending)) = None"
    by (simp_all add: example_defs)
  have c: "fst (DatabaseStorage_createMaintenance no_faults
             (example_maintenance (Some M_pending)) (example_db V_available 1000))
           = Inr (example_maintenance_row 1 19723 M_pending)"
    by (simp add: DatabaseStorage_createMaintenance_def createMaintenance_tx_def store_defs
        example_defs)
  from maintenance_round_trip [OF v a s f p1 p2 p3 n] c
  show ?thesis by (auto simp: example_defs)
qed

section \<open>Deleting a vehicle\<close>

text \<open>
  C7. For every vehicle, an administrator's request and a store that refuses no statement:
  when at least one maintenance, trip or booking record references the vehicle, the
  \<open>DELETE\<close> route rejects the request (status 400, \<open>Cannot delete vehicle with ...\<close>) and the
  store is as before, the vehicle included; when no record references an existing vehicle,
  the route answers 200 and the vehicle is gone, nothing else having changed.
\<close>

theorem delete_vehicle_guarded:
  "(((\<exists>m \<in> set (maintenance db). Maintenance.vehicleId m = i)
      \<or> (\<exists>t \<in> set (Database.trips db). Trip.vehicleId t = i)
      \<or> (\<exists>b \<in> set (bookings db). Booking.vehicleId b = i)) \<longrightarrow>
       code (fst (delete_vehicle_route no_faults (Some (uid, Admin)) i db)) = Some 400
     \<and> snd (delete_vehicle_route no_faults (Some (uid, Admin)) i db) = db)
   \<and> ((\<forall>m \<in> set (maintenance db). Maintenance.vehicleId m \<noteq> i)
      \<and> (\<forall>t \<in> set (Database.trips db). Trip.vehicleId t \<noteq> i)
      \<and> (\<forall>b \<in> set (bookings db). Booking.vehicleId b \<noteq> i)
      \<and> getVehicle db i = Some v \<longrightarrow>
       delete_vehicle_route no_faults (Some (uid, Admin)) i db
         = (Message 200 ''Vehicle deleted successfully'',
            db\<lparr>Database.vehicles := filter (\<lambda>r. Vehicle.id r \<noteq> i) (Database.vehicles db)\<rparr>)
     \<and> getVehicle (snd (delete_vehicle_route no_faults (Some (uid, Admin)) i db)) i = None)"
proof (intro conjI impI)
  assume dep: "(\<exists>m \<in> set (maintenance db). Maintenance.vehicleId m = i)
      \<or> (\<exists>t \<in> set (Database.trips db). Trip.vehicleId t = i)
      \<or> (\<exists>b \<in> set (bookings db). Booking.vehicleId b = i)"
  then have ne: "filter (\<lambda>m. Maintenance.vehicleId m = i) (maintenance db) \<noteq> []
      \<or> filter (\<lambda>t. Trip.vehicleId t = i) (Database.trips db) \<noteq> []
      \<or> filter (\<lambda>b. Booking.vehicleId b = i) (bookings db) \<noteq> []"
    by (simp add: filter_empty_conv)
  then show "code (fst (delete_vehicle_route no_faults (Some (uid, Admin)) i db)) = Some 400"
    by (auto simp: delete_vehicle_route_def checkRole_def listMaintenanceForVehicle_def
        listTripsForVehicle_def listBookingsForVehicle_def select_where_def no_faults_def
        shift_def)
  from ne show "snd (delete_vehicle_route no_faults (Some (uid, Admin)) i db) = db"
    by (auto simp: delete_vehicle_route_def checkRole_def listMaintenanceForVehicle_def
        listTripsForVehicle_def listBookingsForVehicle_def select_where_def no_faults_def
        shift_def)
next
  assume h: "(\<forall>m \<in> set (maintenance db). Maintenance.vehicleId m \<noteq> i)
      \<and> (\<forall>t \<in> set (Database.trips db). Trip.vehicleId t \<noteq> i)
      \<and> (\<forall>b \<in> set (bookings db). Booking.vehicleId b \<noteq> i)
      \<and> getVehicle db i = Some v"
  then have e: "filter (\<lambda>m. Maintenance.vehicleId m = i) (maintenance db) = []"
      "filter (\<lambda>t. Trip.vehicleId t = i) (Database.trips db) = []"
      "filter (\<lambda>b. Booking.vehicleId b = i) (bookings db) = []"
    by (simp_all add: filter_empty_conv)
  from h obtain rest where
    sel: "filter (\<lambda>r. Vehicle.id r = i) (Database.vehicles db) = v # rest"
    by (auto simp: getVehicle_Some)
  show r: "delete_vehicle_route no_faults (Some (uid, Admin)) i db
         = (Message 200 ''Vehicle deleted successfully'',
            db\<lparr>Database.vehicles := filter (\<lambda>r. Vehicle.id r \<noteq> i) (Database.vehicles db)\<rparr>)"
    using e sel
    by (simp add: delete_vehicle_route_def checkRole_def listMaintenanceForVehicle_def
        listTripsForVehicle_def listBookingsForVehicle_def DatabaseStorage_deleteVehicle_def
        select_where_def delete_where_def no_faults_def shift_def)
  show "getVehicle (snd (delete_vehicle_route no_faults (Some (uid, Admin)) i db)) i = None"
    by (simp add: r getVehicle_None)
qed

theorem delete_vehicle_guarded_witness:
  "code (fst (delete_vehicle_route no_faults (Some (9, Admin)) 1
      (example_db_trip V_available 1000 1000))) = Some 400
   \<and> snd (delete_vehicle_route no_faults (Some (9, Admin)) 1
      (example_db_trip V_available 1000 1000)) = example_db_trip V_available 1000 1000
   \<and> delete_vehicle_route no_faults (Some (9, Admin)) 1 (example_db V_available 1000)
     = (Message 200 ''Vehicle deleted successfully'',
        (example_db V_available 1000)\<lparr>Database.vehicles := []\<rparr>)"
proof -
  have d: "(\<exists>m \<in> set (maintenance (example_db_trip V_available 1000 1000)).
              Maintenance.vehicleId m = 1)
      \<or> (\<exists>t \<in> set (Database.trips (example_db_trip V_available 1000 1000)).
              Trip.vehicleId t = 1)
      \<or> (\<exists>b \<in> set (bookings (example_db_trip V_available 1000 1000)).
              Booking.vehicleId b = 1)"
    by (simp add: example_defs)
  have n: "(\<forall>m \<in> set (maintenance (example_db V_available 1000)). Maintenance.vehicleId m \<noteq> 1)
      \<and> (\<forall>t \<in> set (Database.trips (example_db V_available 1000)). Trip.vehicleId t \<noteq> 1)
      \<and> (\<forall>b \<in> set (bookings (example_db V_available 1000)). Booking.vehicleId b \<noteq> 1)
      \<and> getVehicle (example_db V_available 1000) 1 = Some (example_vehicle 1 V_available 1000)"
    by (simp add: getVehicle_def example_defs)
  from delete_vehicle_guarded [of "example_db_trip V_available 1000 1000" 1 9] d
  have 1: "code (fst (delete_vehicle_route no_faults (Some (9, Admin)) 1
             (example_db_trip V_available 1000 1000))) = Some 400
         \<and> snd (delete_vehicle_route no_faults (Some (9, Admin)) 1
             (example_db_trip V_available 1000 1000)) = example_db_trip V_available 1000 1000"
    by blast
  from delete_vehicle_guarded [of "example_db V_available 1000" 1 9
      "example_vehicle 1 V_available 1000"] n
  have 2: "delete_vehicle_route no_faults (Some (9, Admin)) 1 (example_db V_available 1000)
     = (Message 200 ''Vehicle deleted successfully'',
        (example_db V_available 1000)\<lparr>Database.vehicles :=
           filter (\<lambda>r. Vehicle.id r \<noteq> 1) (Database.vehicles (example_db V_available 1000))\<rparr>)"
    by blast
  from 1 2 show ?thesis by (simp add: example_defs)
qed

section \<open>Upcoming maintenance\<close>



section \<open>Booking update\<close>

text \<open>
  C9. For every existing booking and every value \<open>s\<close> of the booking status enum, when
  the store does not refuse the statement: \<open>updateBooking\<close> with status \<open>s\<close> succeeds,
  returns the updated booking, and the stored booking has status \<open>s\<close> afterwards, whatever
  the status was before.
\<close>

theorem updateBooking_any_status:
  assumes "getBooking db i = Some b"
    and "PartialBooking.status p = Some s"
    and "\<not> flt 0"
  shows "fst (DatabaseStorage_updateBooking flt i p db) = Inr (Some (set_booking p b))
       \<and> getBooking (snd (DatabaseStorage_updateBooking flt i p db)) i = Some (set_booking p b)
       \<and> Booking.status (set_booking p b) = s"
proof -
  from assms(1) obtain rest where
    sel: "filter (\<lambda>r. Booking.id r = i) (bookings db) = b # rest"
    by (auto simp: getBooking_Some)
  have sel': "filter (\<lambda>r. Booking.id r = i)
                (map (\<lambda>r. if Booking.id r = i then set_booking p r else r) (bookings db))
              = set_booking p b # map (set_booking p) rest"
    using filter_update_where [of "\<lambda>r. Booking.id r = i" "set_booking p" "bookings db"] sel
    by simp
  have "Booking.status (set_booking p b) = s"
    using assms(2) by (simp add: set_booking_def)
  then show ?thesis
    using assms(3) sel sel'
    by (simp add: DatabaseStorage_updateBooking_def update_where_def getBooking_def)
qed

text \<open>A completed booking is set back to pending.\<close>

theorem updateBooking_any_status_witness:
  "fst (DatabaseStorage_updateBooking no_faults 1 (example_status_patch B_pending)
          (example_db_records [] [example_booking_row B_completed]))
     = Inr (Some (example_booking_row B_pending))
   \<and> getBooking (snd (DatabaseStorage_updateBooking no_faults 1 (example_status_patch B_pending)
          (example_db_records [] [example_booking_row B_completed]))) 1
     = Some (example_booking_row B_pending)"
proof -
  have b: "getBooking (example_db_records [] [example_booking_row B_completed]) 1
             = Some (example_booking_row B_completed)"
    by (simp add: getBooking_def example_defs)
  have p: "PartialBooking.status (example_status_patch B_pending) = Some B_pending"
    by (simp add: example_defs)
  have f: "\<not> no_faults 0" by (simp add: no_faults_def)
  have s: "set_booking (example_status_patch B_pending) (example_booking_row B_completed)
             = example_booking_row B_pending"
    by (simp add: set_booking_def example_defs)
  from updateBooking_any_status [where flt = no_faults, OF b p f] show ?thesis
    unfolding s by simp
qed

section \<open>MemStorage against DatabaseStorage\<close>

text \<open>
  C10. The two implementations do not leave the vehicle with the same status: a planned
  trip on an available vehicle makes the vehicle \<open>in_use\<close> in \<open>MemStorage\<close> and leaves it
  \<open>available\<close> in \<open>DatabaseStorage\<close>; a maintenance record that is created completed makes
  it \<open>maintenance\<close> in \<open>MemStorage\<close> and leaves it \<open>available\<close> in \<open>DatabaseStorage\<close>.
\<close>

theorem create_status_diverges:
  "map_of (MemStorage.vehicles (snd (MemStorage_createTrip (example_trip (Some T_planned))
       (example_mem V_available 1000)))) 1 = Some (example_vehicle 1 V_in_use 1000)
   \<and> getVehicle (snd (DatabaseStorage_createTrip no_faults (example_trip (Some T_planned))
       (example_db V_available 1000))) 1 = Some (example_vehicle 1 V_available 1000)
   \<and> map_of (MemStorage.vehicles (snd (MemStorage_createMaintenance
       (example_maintenance (Some M_completed)) (example_mem V_available 1000)))) 1
     = Some (example_vehicle 1 V_maintenance 1000)
   \<and> getVehicle (snd (DatabaseStorage_createMaintenance no_faults
       (example_maintenance (Some M_completed)) (example_db V_available 1000))) 1
     = Some (example_vehicle 1 V_available 1000)"
  by (simp add: MemStorage_createTrip_def MemStorage_createMaintenance_def
      DatabaseStorage_createTrip_def createTrip_tx_def DatabaseStorage_createMaintenance_def
      createMaintenance_tx_def store_defs getVehicle_def example_defs)

text \<open>
  Where the guards of \<open>DatabaseStorage\<close> let the vehicle be touched, the two
  implementations agree on it: for a trip created \<open>in_progress\<close> and for a maintenance
  record not created \<open>completed\<close> (and without a completion time, which
  \<open>DatabaseStorage\<close> cannot insert), from stores that hold the same vehicles.
\<close>

lemma map_of_rows:
  "map_of (map (\<lambda>v. (Vehicle.id v, v)) vs) i = first (filter (\<lambda>v. Vehicle.id v = i) vs)"
  by (induction vs) auto

lemma MemStorage_flip_agrees:
  assumes "al = map (\<lambda>v. (Vehicle.id v, v)) vs"
    and "\<And>r. Vehicle.id (f r) = Vehicle.id r"
  shows "map_of (case map_of al i of
                   Some vehicle \<Rightarrow> if Vehicle.status vehicle = V_available
                                   then AList.update (Vehicle.id vehicle) (f vehicle) al else al
                 | None \<Rightarrow> al) i
         = first (filter (\<lambda>v. Vehicle.id v = i)
             (case filter (\<lambda>v. Vehicle.id v = i) vs of
                v # rest \<Rightarrow> if Vehicle.status v = V_available
                            then map (\<lambda>r. if Vehicle.id r = i then f r else r) vs else vs
              | [] \<Rightarrow> vs))"
proof (cases "filter (\<lambda>v. Vehicle.id v = i) vs")
  case Nil
  then show ?thesis by (simp add: assms(1) map_of_rows)
next
  case (Cons v rest)
  then have i: "Vehicle.id v = i"
    by (metis (mono_tags, lifting) filter_eq_ConsD)
  have "filter (\<lambda>v. Vehicle.id v = i) (map (\<lambda>r. if Vehicle.id r = i then f r else r) vs)
          = f v # map f rest"
    using filter_update_where [of "\<lambda>v. Vehicle.id v = i" f vs] assms(2) Cons by simp
  then show ?thesis
    using Cons i by (simp add: assms(1) map_of_rows update_conv')
qed

lemma create_status_agrees_when_guarded:
  assumes "MemStorage.vehicles s = map (\<lambda>v. (Vehicle.id v, v)) (Database.vehicles db)"
  shows "InsertTrip.status tripData = Some T_in_progress \<Longrightarrow>
           map_of (MemStorage.vehicles (snd (MemStorage_createTrip tripData s)))
             (InsertTrip.vehicleId tripData)
           = getVehicle (snd (DatabaseStorage_createTrip no_faults tripData db))
               (InsertTrip.vehicleId tripData)"
    and "InsertMaintenance.status maintenanceData \<noteq> Some M_completed \<Longrightarrow>
         InsertMaintenance.completedAt maintenanceData = None \<Longrightarrow>
           map_of (MemStorage.vehicles (snd (MemStorage_createMaintenance maintenanceData s)))
             (InsertMaintenance.vehicleId maintenanceData)
           = getVehicle (snd (DatabaseStorage_createMaintenance no_faults maintenanceData db))
               (InsertMaintenance.vehicleId maintenanceData)"
proof -
  assume st: "InsertTrip.status tripData = Some T_in_progress"
  have m: "MemStorage.vehicles (snd (MemStorage_createTrip tripData s))
      = (case map_of (MemStorage.vehicles s) (InsertTrip.vehicleId tripData) of
           Some vehicle \<Rightarrow>
             if Vehicle.status vehicle = V_available
             then AList.update (Vehicle.id vehicle) (vehicle\<lparr>Vehicle.status := V_in_use\<rparr>)
                    (MemStorage.vehicles s)
             else MemStorage.vehicles s
         | None \<Rightarrow> MemStorage.vehicles s)"
    by (simp add: MemStorage_createTrip_def Let_def split: option.splits)
  have d: "Database.vehicles (snd (DatabaseStorage_createTrip no_faults tripData db))
      = (case filter (\<lambda>v. Vehicle.id v = InsertTrip.vehicleId tripData) (Database.vehicles db) of
           v # rest \<Rightarrow>
             if Vehicle.status v = V_available
             then map (\<lambda>r. if Vehicle.id r = InsertTrip.vehicleId tripData
                            then r\<lparr>Vehicle.status := V_in_use\<rparr> else r) (Database.vehicles db)
             else Database.vehicles db
         | [] \<Rightarrow> Database.vehicles db)"
    using st
    by (simp add: DatabaseStorage_createTrip_def createTrip_tx_def store_defs split: list.splits)
  show "map_of (MemStorage.vehicles (snd (MemStorage_createTrip tripData s)))
             (InsertTrip.vehicleId tripData)
           = getVehicle (snd (DatabaseStorage_createTrip no_faults tripData db))
               (InsertTrip.vehicleId tripData)"
    unfolding getVehicle_def m d
    by (rule MemStorage_flip_agrees [OF assms]) simp
next
  assume st: "InsertMaintenance.status maintenanceData \<noteq> Some M_completed"
    and nc: "InsertMaintenance.completedAt maintenanceData = None"
  have m: "MemStorage.vehicles (snd (MemStorage_createMaintenance maintenanceData s))
      = (case map_of (MemStorage.vehicles s) (InsertMaintenance.vehicleId maintenanceData) of
           Some vehicle \<Rightarrow>
             if Vehicle.status vehicle = V_available
             then AList.update (Vehicle.id vehicle) (vehicle\<lparr>Vehicle.status := V_maintenance\<rparr>)
                    (MemStorage.vehicles s)
             else MemStorage.vehicles s
         | None \<Rightarrow> MemStorage.vehicles s)"
    by (simp add: MemStorage_createMaintenance_def Let_def split: option.splits)
  have d: "Database.vehicles (snd (DatabaseStorage_createMaintenance no_faults maintenanceData db))
      = (case filter (\<lambda>v. Vehicle.id v = InsertMaintenance.vehicleId maintenanceData)
                (Database.vehicles db) of
           v # rest \<Rightarrow>
             if Vehicle.status v = V_available
             then map (\<lambda>r. if Vehicle.id r = InsertMaintenance.vehicleId maintenanceData
                            then r\<lparr>Vehicle.status := V_maintenance\<rparr> else r)
                    (Database.vehicles db)
             else Database.vehicles db
         | [] \<Rightarrow> Database.vehicles db)"
    using st nc
    by (simp add: DatabaseStorage_createMaintenance_def createMaintenance_tx_def store_defs
        split: list.splits)
  show "map_of (MemStorage.vehicles (snd (MemStorage_createMaintenance maintenanceData s)))
             (InsertMaintenance.vehicleId maintenanceData)
           = getVehicle (snd (DatabaseStorage_createMaintenance no_faults maintenanceData db))
               (InsertMaintenance.vehicleId maintenanceData)"
    unfolding getVehicle_def m d
    by (rule MemStorage_flip_agrees [OF assms]) simp
qed

section \<open>The same operations in MemStorage\<close>

text \<open>
  \<open>MemStorage.listUpcomingMaintenance\<close> has no condition on the date: it returns exactly
  the records not completed, ordered by ascending date.
\<close>

lemma MemStorage_listUpcomingMaintenance_all:
  "mset (MemStorage_listUpcomingMaintenance s)
     = filter_mset (\<lambda>m. InsertMaintenance.status (MemMaintenance.inserted m) \<noteq> Some M_completed)
         (mset (map snd (maintenances s)))
   \<and> sorted (map (\<lambda>m. InsertMaintenance.date (MemMaintenance.inserted m))
         (MemStorage_listUpcomingMaintenance s))"
  by (simp add: MemStorage_listUpcomingMaintenance_def)

text \<open>
  \<open>MemStorage.updateTrip\<close> sets the mileage by the same rule as \<open>DatabaseStorage\<close>: the
  reported odometer, or the vehicle's own mileage when that is absent or \<open>0\<close>.
\<close>

lemma MemStorage_updateTrip_complete_in_use:
  assumes "map_of (MemStorage.trips s) i = Some trip"
    and "map_of (MemStorage.vehicles s) (InsertTrip.vehicleId (MemTrip.inserted trip)) = Some v"
    and "Vehicle.id v = InsertTrip.vehicleId (MemTrip.inserted trip)"
    and "Vehicle.status v = V_in_use"
    and "PartialTrip.status p = Some T_completed"
    and "PartialTrip.endTime p = Some (Some e)"
    and "PartialTrip.endOdometer p = Some (Some X)"
  shows "map_of (MemStorage.vehicles (snd (MemStorage_updateTrip i p s)))
           (InsertTrip.vehicleId (MemTrip.inserted trip))
         = Some (v\<lparr>Vehicle.status := V_available,
                   Vehicle.mileage := (if X = 0 then Vehicle.mileage v else X)\<rparr>)"
  using assms by (simp add: MemStorage_updateTrip_def Let_def update_conv')

end
